theory Spec2Isabelle
  imports Complex_Main
begin

section \<open>MKL convolution and fused matmul kernels: caching and dispatch core\<close>

text \<open>
  A shallow embedding of the kernels of \<^verbatim>\<open>mkl_conv_ops.cc\<close> (the convolution forward
  primitive, \<^verbatim>\<open>MklConvOp\<close> and its fused subclasses) and of the fused matmul kernel that
  follows it in the same source file.

  Conventions.
  \<^item> A C++ data member \<^verbatim>\<open>name_\<close> is the record field \<open>m_name\<close>; the attributes of an
    \<^verbatim>\<open>OpKernelConstruction\<close> are the fields \<open>attr_name\<close> of the record \<open>attrs\<close>, an absent
    attribute being \<open>None\<close>.
  \<^item> \<^verbatim>\<open>OP_REQUIRES\<close> and \<^verbatim>\<open>OP_REQUIRES_OK\<close> record a status and return from the enclosing
    function; a function that can do so returns \<open>Status + 'a\<close>, with \<open>Inl\<close> the status.
  \<^item> An \<^verbatim>\<open>mkldnn::error\<close> thrown by the backend is a value of type \<open>mkldnn_error\<close>; a function
    it can escape from returns it on the left of a sum.
  \<^item> \<^verbatim>\<open>int32\<close> and \<^verbatim>\<open>int64\<close> values are only compared with constants here, never
    added or multiplied, so they are modelled as \<open>int\<close>; \<^verbatim>\<open>float\<close> parameters are only
    stored, and are modelled as \<open>real\<close>.
  \<^item> Types and functions declared outside the source at hand (the tensor format enum,
    \<^verbatim>\<open>FormatFromString\<close>, \<^verbatim>\<open>GetTensorDim\<close>, the backend) are type and function
    parameters.
\<close>

subsection \<open>Status values and backend exceptions\<close>

datatype mkldnn_error = MkldnnError (err_status: int) (err_message: string)

datatype Status =
    OK
  | NotFound string
  | InvalidArgument string
  | Unimplemented string
  | Aborted mkldnn_error

text \<open>
  What C++ leaves undefined is made a value: \<^verbatim>\<open>std::vector::operator[]\<close> and a raw
  pointer do not check an index, so a read at or past the size is an out-of-bounds read
  (of the index, in a vector of the size); a call through a null \<^verbatim>\<open>shared_ptr\<close> is a null
  dereference; the increment of an \<^verbatim>\<open>int\<close> that holds its largest value is a signed
  overflow.
\<close>

datatype fault =
    OutOfBoundsRead (fault_index: nat) (fault_size: nat)
  | NullDereference
  | SignedOverflow

definition vector_index :: "'a list \<Rightarrow> nat \<Rightarrow> fault + 'a" where
  "vector_index v i = (if i < length v then Inr (v ! i) else Inl (OutOfBoundsRead i (length v)))"

text \<open>The conversion of an \<^verbatim>\<open>int64\<close> value to \<^verbatim>\<open>int\<close>: the low 32 bits, signed.\<close>

definition to_int :: "int \<Rightarrow> int" where
  "to_int x = (x + 2147483648) mod 4294967296 - 2147483648"

text \<open>The largest \<^verbatim>\<open>int\<close>.\<close>

definition INT_MAX :: int where
  "INT_MAX = 2147483647"

text \<open>How a call ends: it returns, an \<^verbatim>\<open>mkldnn::error\<close> leaves it, or it faults.\<close>

datatype 'a outcome = Returns 'a | Throws mkldnn_error | Faults fault

datatype algorithm =
    undef
  | convolution_direct
  | eltwise_relu
  | eltwise_bounded_relu
  | eltwise_elu

subsection \<open>Kernel construction attributes\<close>

record 'pad attrs =
  attr_dilations :: "int list option"
  attr_padding_list :: "int list option"
  attr_explicit_paddings :: "int list option"
  attr_strides :: "int list option"
  attr_data_format :: "string option"
  attr_padding :: "'pad option"
  attr_is_filter_const :: "bool option"
  attr_fused_ops :: "string list option"
  attr_num_args :: "int option"
  attr_leakyrelu_alpha :: "real option"
  attr_transpose_a :: "bool option"
  attr_transpose_b :: "bool option"

text \<open>\<^verbatim>\<open>context->HasAttr(name)\<close> and \<^verbatim>\<open>context->GetAttr(name, &v)\<close>: the latter fails when
  the attribute is absent.\<close>

definition HasAttr :: "'a option \<Rightarrow> bool" where
  "HasAttr a = (a \<noteq> None)"

definition GetAttr :: "string \<Rightarrow> 'a option \<Rightarrow> Status + 'a" where
  "GetAttr name a = (case a of None \<Rightarrow> Inl (NotFound name) | Some v \<Rightarrow> Inr v)"

subsection \<open>The convolution kernel's members\<close>

record ('fmt, 'pad) conv_kernel =
  m_strides :: "int list"
  m_dilations :: "int list"
  m_padding_list :: "int list"
  m_is_filter_const :: bool
  m_padding :: 'pad
  m_data_format :: 'fmt
  m_fuse_biasadd :: bool
  m_fuse_activation :: bool
  m_fuse_pad :: bool
  m_fuse_add :: bool
  m_alpha_or_upbound :: real
  m_activation_alg :: algorithm
  m_input_index_pad :: int

text \<open>The functions of \<^verbatim>\<open>tensor_format.h\<close> the constructor calls, as parameters.\<close>

record 'fmt tensor_format_lib =
  FormatFromString :: "string \<Rightarrow> 'fmt option"
  GetTensorDim :: "int list \<Rightarrow> 'fmt \<Rightarrow> char \<Rightarrow> int"

text \<open>The dilation checks of the constructor, for 4 and for 5 stride dimensions.\<close>

definition check_dilations ::
  "'fmt tensor_format_lib \<Rightarrow> int list \<Rightarrow> int list \<Rightarrow> 'fmt \<Rightarrow> Status" where
  "check_dilations lib strides dilations fmt =
    (if length strides = 4 then
       (if length dilations \<noteq> 4 then
          InvalidArgument ''Sliding window dilations field must specify 4 dimensions''
        else
          let dilation_n = GetTensorDim lib dilations fmt CHR ''N'';
              dilation_c = GetTensorDim lib dilations fmt CHR ''C'';
              dilation_h = GetTensorDim lib dilations fmt CHR ''H'';
              dilation_w = GetTensorDim lib dilations fmt CHR ''W''
          in if \<not> (dilation_n = 1 \<and> dilation_c = 1) then
               InvalidArgument
                 ''Current implementation does not yet support dilations in the batch and depth dimensions.''
             else if \<not> (dilation_h > 0 \<and> dilation_w > 0) then
               InvalidArgument ''Dilated rates should be larger than 0.''
             else OK)
     else if length strides = 5 then
       (if length dilations \<noteq> 5 then
          InvalidArgument ''Dilation rates field must specify 5 dimensions''
        else if \<not> (GetTensorDim lib dilations fmt CHR ''N'' = 1 \<and>
                    GetTensorDim lib dilations fmt CHR ''C'' = 1) then
          InvalidArgument
            ''Current implementation does not yet support dilations rates in the batch and depth dimensions.''
        else if \<not> (GetTensorDim lib dilations fmt CHR ''0'' > 0 \<and>
                    GetTensorDim lib dilations fmt CHR ''1'' > 0 \<and>
                    GetTensorDim lib dilations fmt CHR ''2'' > 0) then
          InvalidArgument ''Dilated rates should be larger than 0.''
        else OK)
     else OK)"

text \<open>Sequencing: \<^verbatim>\<open>OP_REQUIRES_OK(ctx, e)\<close> continues with the value of \<open>e\<close> or returns
  its status; \<^verbatim>\<open>OP_REQUIRES(ctx, c, s)\<close> continues when \<open>c\<close> holds and returns \<open>s\<close>
  otherwise.\<close>

definition OP_REQUIRES_OK :: "Status + 'a \<Rightarrow> ('a \<Rightarrow> Status + 'b) \<Rightarrow> Status + 'b" where
  "OP_REQUIRES_OK r rest = (case r of Inl s \<Rightarrow> Inl s | Inr v \<Rightarrow> rest v)"

definition OP_REQUIRES :: "bool \<Rightarrow> Status \<Rightarrow> (Status + 'b) \<Rightarrow> Status + 'b" where
  "OP_REQUIRES c s rest = (if c then rest else Inl s)"

definition status_to_result :: "Status \<Rightarrow> 'a \<Rightarrow> Status + 'a" where
  "status_to_result s v = (if s = OK then Inr v else Inl s)"

text \<open>
  \<^verbatim>\<open>MklConvOp::MklConvOp\<close>. The template arguments \<^verbatim>\<open>bias_enabled\<close> and \<^verbatim>\<open>pad_enabled\<close>
  initialise \<^verbatim>\<open>fuse_biasadd_\<close> and \<^verbatim>\<open>fuse_pad_\<close>. Of the two reads into
  \<^verbatim>\<open>padding_list_\<close> at most one happens, because of the check before them.
\<close>

definition MklConvOp_ctor ::
  "'fmt tensor_format_lib \<Rightarrow> bool \<Rightarrow> bool \<Rightarrow> 'pad attrs \<Rightarrow> Status + ('fmt, 'pad) conv_kernel" where
  "MklConvOp_ctor lib bias_enabled pad_enabled a =
    OP_REQUIRES_OK (GetAttr ''dilations'' (attr_dilations a)) (\<lambda>dilations.
    OP_REQUIRES (\<not> (HasAttr (attr_padding_list a) \<and> HasAttr (attr_explicit_paddings a)))
      (InvalidArgument ''Can only have 1 `padding` list at most'') (
    let padding_list1 = (if HasAttr (attr_padding_list a) then the (attr_padding_list a) else []);
        padding_list = (if HasAttr (attr_explicit_paddings a) then the (attr_explicit_paddings a)
                        else padding_list1)
    in
    OP_REQUIRES_OK (GetAttr ''strides'' (attr_strides a)) (\<lambda>strides.
    OP_REQUIRES_OK (GetAttr ''data_format'' (attr_data_format a)) (\<lambda>data_format.
    OP_REQUIRES (FormatFromString lib data_format \<noteq> None)
      (InvalidArgument ''Invalid data format'') (
    let fmt = the (FormatFromString lib data_format) in
    OP_REQUIRES (length strides = 4 \<or> length strides = 5)
      (InvalidArgument ''Sliding window strides field must specify 4 or 5 dimensions'') (
    let stride_n = GetTensorDim lib strides fmt CHR ''N'';
        stride_c = GetTensorDim lib strides fmt CHR ''C''
    in
    OP_REQUIRES (stride_n = 1 \<and> stride_c = 1)
      (Unimplemented
        ''Current implementation does not yet support strides in the batch and depth dimensions.'') (
    OP_REQUIRES_OK (GetAttr ''padding'' (attr_padding a)) (\<lambda>padding.
    let is_filter_const =
          (if HasAttr (attr_is_filter_const a) then the (attr_is_filter_const a) else False)
    in
    status_to_result (check_dilations lib strides dilations fmt)
      \<lparr> m_strides = strides, m_dilations = dilations, m_padding_list = padding_list,
        m_is_filter_const = is_filter_const, m_padding = padding, m_data_format = fmt,
        m_fuse_biasadd = bias_enabled, m_fuse_activation = False,
        m_fuse_pad = pad_enabled, m_fuse_add = False,
        m_alpha_or_upbound = 0, m_activation_alg = undef, m_input_index_pad = 2 \<rparr>))))))))"

subsection \<open>The fused convolution kernels: the fusion lists they accept\<close>

text \<open>The protected setters of \<^verbatim>\<open>MklConvOp\<close>.\<close>

definition set_fuse_biasadd :: "bool \<Rightarrow> ('fmt, 'pad) conv_kernel \<Rightarrow> ('fmt, 'pad) conv_kernel" where
  "set_fuse_biasadd fuse_biasadd k = k\<lparr>m_fuse_biasadd := fuse_biasadd\<rparr>"

definition set_fuse_activation ::
  "bool \<Rightarrow> algorithm \<Rightarrow> real \<Rightarrow> ('fmt, 'pad) conv_kernel \<Rightarrow> ('fmt, 'pad) conv_kernel" where
  "set_fuse_activation fuse_activation activation_alg alpha_or_upbound k =
     k\<lparr>m_fuse_activation := fuse_activation, m_activation_alg := activation_alg,
       m_alpha_or_upbound := alpha_or_upbound\<rparr>"

definition set_fuse_pad :: "bool \<Rightarrow> ('fmt, 'pad) conv_kernel \<Rightarrow> ('fmt, 'pad) conv_kernel" where
  "set_fuse_pad fuse_pad k = k\<lparr>m_fuse_pad := fuse_pad, m_input_index_pad := 3\<rparr>"

definition set_fuse_add :: "bool \<Rightarrow> ('fmt, 'pad) conv_kernel \<Rightarrow> ('fmt, 'pad) conv_kernel" where
  "set_fuse_add fuse_add k = k\<lparr>m_fuse_add := fuse_add\<rparr>"

text \<open>\<^verbatim>\<open>absl::StrJoin(parts, sep)\<close>.\<close>

fun StrJoin :: "string list \<Rightarrow> string \<Rightarrow> string" where
  "StrJoin [] sep = []"
| "StrJoin [x] sep = x"
| "StrJoin (x # y # ys) sep = x @ sep @ StrJoin (y # ys) sep"

definition fusion_not_implemented :: "string list \<Rightarrow> Status" where
  "fusion_not_implemented fused_ops =
     Unimplemented (''Fusion is not implemented: ['' @ StrJoin fused_ops '','' @ '']'')"

definition one_extra_bias :: Status where
  "one_extra_bias = InvalidArgument ''Fused Conv2D must have one extra argument: bias.''"

definition two_extra_bias_add :: Status where
  "two_extra_bias_add = InvalidArgument ''Fused Conv2D must have two extra arguments: bias and add.''"

text \<open>The tail of both fused constructors: \<^verbatim>\<open>if (pad_enabled) this->set_fuse_pad(true)\<close>.\<close>

definition enable_pad :: "bool \<Rightarrow> ('fmt, 'pad) conv_kernel \<Rightarrow> ('fmt, 'pad) conv_kernel" where
  "enable_pad pad_enabled k = (if pad_enabled then set_fuse_pad True k else k)"

text \<open>
  The body of \<^verbatim>\<open>MklFusedConvOp::MklFusedConvOp\<close>, run on the members \<open>k\<close> that the base
  constructor has initialised. The chain of comparisons of \<^verbatim>\<open>fused_ops\<close> with vector
  literals is kept in the source's order.
\<close>

definition MklFusedConvOp_body ::
  "bool \<Rightarrow> 'pad attrs \<Rightarrow> ('fmt, 'pad) conv_kernel \<Rightarrow> Status + ('fmt, 'pad) conv_kernel" where
  "MklFusedConvOp_body pad_enabled a k =
    OP_REQUIRES_OK (GetAttr ''fused_ops'' (attr_fused_ops a)) (\<lambda>fused_ops.
    OP_REQUIRES_OK (GetAttr ''num_args'' (attr_num_args a)) (\<lambda>num_args.
    OP_REQUIRES (fused_ops \<noteq> [])
      (InvalidArgument ''Fused Conv2D must have at least one fused op.'') (
    if fused_ops = [''BiasAdd''] then
      OP_REQUIRES (num_args = 1) one_extra_bias
        (Inr (enable_pad pad_enabled (set_fuse_biasadd True k)))
    else if fused_ops = [''Relu''] then
      Inr (enable_pad pad_enabled (set_fuse_activation True eltwise_relu 0 k))
    else if fused_ops = [''Relu6''] then
      Inr (enable_pad pad_enabled (set_fuse_activation True eltwise_bounded_relu 6 k))
    else if fused_ops = [''Elu''] then
      Inr (enable_pad pad_enabled (set_fuse_activation True eltwise_elu 1 k))
    else if fused_ops = [''LeakyRelu''] then
      OP_REQUIRES_OK (GetAttr ''leakyrelu_alpha'' (attr_leakyrelu_alpha a)) (\<lambda>leakyrelu_alpha.
        Inr (enable_pad pad_enabled (set_fuse_activation True eltwise_relu leakyrelu_alpha k)))
    else if fused_ops = [''BiasAdd'', ''Relu''] then
      OP_REQUIRES (num_args = 1) one_extra_bias
        (Inr (enable_pad pad_enabled
           (set_fuse_activation True eltwise_relu 0 (set_fuse_biasadd True k))))
    else if fused_ops = [''BiasAdd'', ''Relu6''] then
      OP_REQUIRES (num_args = 1) one_extra_bias
        (Inr (enable_pad pad_enabled
           (set_fuse_activation True eltwise_bounded_relu 6 (set_fuse_biasadd True k))))
    else if fused_ops = [''BiasAdd'', ''Elu''] then
      OP_REQUIRES (num_args = 1) one_extra_bias
        (Inr (enable_pad pad_enabled
           (set_fuse_activation True eltwise_elu 1 (set_fuse_biasadd True k))))
    else if fused_ops = [''BiasAdd'', ''LeakyRelu''] then
      OP_REQUIRES_OK (GetAttr ''leakyrelu_alpha'' (attr_leakyrelu_alpha a)) (\<lambda>leakyrelu_alpha.
      OP_REQUIRES (num_args = 1) one_extra_bias
        (Inr (enable_pad pad_enabled
           (set_fuse_activation True eltwise_relu leakyrelu_alpha (set_fuse_biasadd True k)))))
    else if fused_ops = [''BiasAdd'', ''Add''] then
      OP_REQUIRES (num_args = 2) two_extra_bias_add
        (Inr (enable_pad pad_enabled (set_fuse_add True (set_fuse_biasadd True k))))
    else if fused_ops = [''BiasAdd'', ''Add'', ''Relu''] then
      OP_REQUIRES (num_args = 2) two_extra_bias_add
        (Inr (enable_pad pad_enabled
           (set_fuse_activation True eltwise_relu 0
              (set_fuse_add True (set_fuse_biasadd True k)))))
    else if fused_ops = [''BiasAdd'', ''Add'', ''Relu6''] then
      OP_REQUIRES (num_args = 2) two_extra_bias_add
        (Inr (enable_pad pad_enabled
           (set_fuse_activation True eltwise_bounded_relu 6
              (set_fuse_add True (set_fuse_biasadd True k)))))
    else if fused_ops = [''BiasAdd'', ''Add'', ''Elu''] then
      OP_REQUIRES (num_args = 2) two_extra_bias_add
        (Inr (enable_pad pad_enabled
           (set_fuse_activation True eltwise_elu 1
              (set_fuse_add True (set_fuse_biasadd True k)))))
    else if fused_ops = [''BiasAdd'', ''Add'', ''LeakyRelu''] then
      OP_REQUIRES_OK (GetAttr ''leakyrelu_alpha'' (attr_leakyrelu_alpha a)) (\<lambda>leakyrelu_alpha.
      OP_REQUIRES (num_args = 2) two_extra_bias_add
        (Inr (enable_pad pad_enabled
           (set_fuse_activation True eltwise_relu leakyrelu_alpha
              (set_fuse_add True (set_fuse_biasadd True k))))))
    else
      Inl (fusion_not_implemented fused_ops))))"

text \<open>The body of \<^verbatim>\<open>MklFusedDepthwiseConvOp::MklFusedDepthwiseConvOp\<close>; the check of
  \<^verbatim>\<open>num_args\<close> follows the chain.\<close>

definition MklFusedDepthwiseConvOp_body ::
  "bool \<Rightarrow> 'pad attrs \<Rightarrow> ('fmt, 'pad) conv_kernel \<Rightarrow> Status + ('fmt, 'pad) conv_kernel" where
  "MklFusedDepthwiseConvOp_body pad_enabled a k =
    OP_REQUIRES_OK (GetAttr ''fused_ops'' (attr_fused_ops a)) (\<lambda>fused_ops.
    OP_REQUIRES_OK (GetAttr ''num_args'' (attr_num_args a)) (\<lambda>num_args.
    OP_REQUIRES (fused_ops \<noteq> [])
      (InvalidArgument ''Fused DepthwiseConv2D must have at least one fused op.'') (
    OP_REQUIRES_OK
      (if fused_ops = [''BiasAdd''] then
         Inr (set_fuse_biasadd True k)
       else if fused_ops = [''BiasAdd'', ''Relu''] then
         Inr (set_fuse_activation True eltwise_relu 0 (set_fuse_biasadd True k))
       else if fused_ops = [''BiasAdd'', ''Relu6''] then
         Inr (set_fuse_activation True eltwise_bounded_relu 6 (set_fuse_biasadd True k))
       else if fused_ops = [''BiasAdd'', ''Elu''] then
         Inr (set_fuse_activation True eltwise_elu 1 (set_fuse_biasadd True k))
       else
         Inl (fusion_not_implemented fused_ops)) (\<lambda>k'.
    OP_REQUIRES (num_args = 1)
      (InvalidArgument ''Fused DepthwiseConv2D must have one extra argument: bias.'')
      (Inr (enable_pad pad_enabled k'))))))"

text \<open>
  The whole constructors: the base constructor, instantiated as the class declarations
  do, then the body. A status recorded by the base constructor stays the status of the
  construction, whatever the body does next.
\<close>

definition MklFusedConvOp_ctor ::
  "'fmt tensor_format_lib \<Rightarrow> bool \<Rightarrow> 'pad attrs \<Rightarrow> Status + ('fmt, 'pad) conv_kernel" where
  "MklFusedConvOp_ctor lib pad_enabled a =
     OP_REQUIRES_OK (MklConvOp_ctor lib False False a) (MklFusedConvOp_body pad_enabled a)"

definition MklFusedDepthwiseConvOp_ctor ::
  "'fmt tensor_format_lib \<Rightarrow> bool \<Rightarrow> bool \<Rightarrow> 'pad attrs \<Rightarrow> Status + ('fmt, 'pad) conv_kernel" where
  "MklFusedDepthwiseConvOp_ctor lib pad_enabled bias_enabled a =
     OP_REQUIRES_OK (MklConvOp_ctor lib bias_enabled False a)
       (MklFusedDepthwiseConvOp_body pad_enabled a)"

subsection \<open>The fused matmul kernel's constructor\<close>

record matmul_kernel =
  mm_fused_ops :: "string list"
  mm_transpose_a :: bool
  mm_transpose_b :: bool
  mm_is_weight_const :: bool

text \<open>\<^verbatim>\<open>MklFusedMatMulOp::MklFusedMatMulOp\<close>, after the base class's constructor (which is
  not part of this source).\<close>

definition MklFusedMatMulOp_ctor :: "'pad attrs \<Rightarrow> fault + (Status + matmul_kernel)" where
  "MklFusedMatMulOp_ctor a =
    (case GetAttr ''fused_ops'' (attr_fused_ops a) of Inl s \<Rightarrow> Inr (Inl s) | Inr fused_ops \<Rightarrow>
    (case GetAttr ''transpose_a'' (attr_transpose_a a) of Inl s \<Rightarrow> Inr (Inl s) | Inr transpose_a \<Rightarrow>
    (case GetAttr ''transpose_b'' (attr_transpose_b a) of Inl s \<Rightarrow> Inr (Inl s) | Inr transpose_b \<Rightarrow>
    (case GetAttr ''is_filter_const'' (attr_is_filter_const a) of Inl s \<Rightarrow> Inr (Inl s)
     | Inr is_weight_const \<Rightarrow>
    if \<not> (length fused_ops \<le> 2) then
      Inr (Inl (InvalidArgument ''MklFusedMatMul must have 2 post-arguments at most.''))
    else
    (case vector_index fused_ops 0 of Inl f \<Rightarrow> Inl f | Inr first_op \<Rightarrow>
    if \<not> (first_op = ''BiasAdd'') then
      Inr (Inl (InvalidArgument ''The 1st post-argument of MklFusedMatMul must be BiasAdd.''))
    else if \<not> (transpose_a = False) then
      Inr (Inl (InvalidArgument ''In[0] of MklMatMul can't be transposed.''))
    else
      Inr (Inr \<lparr> mm_fused_ops = fused_ops, mm_transpose_a = transpose_a,
                 mm_transpose_b = transpose_b, mm_is_weight_const = is_weight_const \<rparr>))))))"

subsection \<open>The spec's fusion sets\<close>

text \<open>
  The fusion policy as the specification words it: a fusion is a set of kinds, and six
  sets are legal. The names the kernels compare \<^verbatim>\<open>fused_ops\<close> with are mapped to kinds
  by \<open>kind_of\<close>: \<^verbatim>\<open>Add\<close> is the residual add and the four activation names are one kind.
  The legal sets are written in the order bias, residual, activation.
\<close>

datatype fused_kind = BiasAdd | Activation | ResidualAdd

definition activation_names :: "string list" where
  "activation_names = [''Relu'', ''Relu6'', ''Elu'', ''LeakyRelu'']"

definition kind_of :: "string \<Rightarrow> fused_kind option" where
  "kind_of s =
     (if s = ''BiasAdd'' then Some BiasAdd
      else if s = ''Add'' then Some ResidualAdd
      else if s \<in> set activation_names then Some Activation
      else None)"

definition spec_legal_fusions :: "fused_kind list list" where
  "spec_legal_fusions =
     [[], [BiasAdd], [Activation], [BiasAdd, Activation], [BiasAdd, ResidualAdd],
      [BiasAdd, ResidualAdd, Activation]]"

text \<open>The number of extra operands a fusion list goes with in \<^verbatim>\<open>MklFusedConvOp\<close>: one
  for the bias, two for bias and summand; a list without \<^verbatim>\<open>BiasAdd\<close> is not checked.\<close>

definition num_args_ok :: "string list \<Rightarrow> int \<Rightarrow> bool" where
  "num_args_ok fused_ops num_args =
     (if ''BiasAdd'' \<in> set fused_ops
      then num_args = (if ''Add'' \<in> set fused_ops then 2 else 1) else True)"

text \<open>The lists the depthwise kernel's chain names.\<close>

definition depthwise_fusions :: "string list list" where
  "depthwise_fusions =
     [[''BiasAdd''], [''BiasAdd'', ''Relu''], [''BiasAdd'', ''Relu6''], [''BiasAdd'', ''Elu'']]"

subsection \<open>The convolution forward primitive\<close>

text \<open>
  A memory object's data handle is either the sentinel \<^verbatim>\<open>DummyData\<close> or a caller's buffer.
  \<^verbatim>\<open>bias_mem\<close> stays a null pointer when the primitive is set up without bias dimensions.
\<close>

datatype 'b data_handle = DummyData | Bound 'b

record PostOpParam =
  po_name :: string
  po_alg :: algorithm
  po_param :: "real list"
  po_partial_key :: string

record 'tf MklConvFwdParams =
  src_dims :: "int list"
  filter_dims :: "int list"
  bias_dims :: "int list"
  dst_dims :: "int list"
  strides :: "int list"
  dilations :: "int list"
  padding_left :: "int list"
  padding_right :: "int list"
  tf_fmt :: 'tf
  dtypes :: string
  post_op_params :: "PostOpParam list"

record ('b, 'md, 'tf) ConvFwdContext =
  src_mem :: "'b data_handle"
  filter_mem :: "'b data_handle"
  bias_mem :: "'b data_handle option"
  dst_mem :: "'b data_handle"
  fwd_pd_weights_desc :: 'md
  fwd_primitives :: "'tf MklConvFwdParams list"

text \<open>
  The loop over \<^verbatim>\<open>fwd_primitives\<close>: each backend primitive is executed on the memory
  arguments bound in the context; the first that throws ends the loop. The backend's
  \<^verbatim>\<open>execute\<close> is the parameter \<open>exec\<close>; \<open>None\<close> is a normal return.
\<close>

fun execute_primitives ::
  "('p \<Rightarrow> 'c \<Rightarrow> mkldnn_error option) \<Rightarrow> 'p list \<Rightarrow> 'c \<Rightarrow> mkldnn_error option" where
  "execute_primitives exec [] ctx = None"
| "execute_primitives exec (p # ps) ctx =
     (case exec p ctx of Some e \<Rightarrow> Some e | None \<Rightarrow> execute_primitives exec ps ctx)"

text \<open>
  \<^verbatim>\<open>MklConvFwdPrimitive::Execute\<close> (both preprocessor branches bind the same handles). It
  returns the outcome and the context as the call leaves it: an exception leaves the
  function at the throwing \<^verbatim>\<open>execute\<close>, with the handles still bound. Binding a bias
  buffer into a primitive without bias memory dereferences a null pointer.
\<close>

definition Execute ::
  "('tf MklConvFwdParams \<Rightarrow> ('b, 'md, 'tf) ConvFwdContext \<Rightarrow> mkldnn_error option) \<Rightarrow>
   'b \<Rightarrow> 'b \<Rightarrow> 'b option \<Rightarrow> 'b \<Rightarrow> ('b, 'md, 'tf) ConvFwdContext \<Rightarrow>
   unit outcome \<times> ('b, 'md, 'tf) ConvFwdContext" where
  "Execute exec src_data filter_data bias_data dst_data ctx =
    (let ctx1 = ctx\<lparr>src_mem := Bound src_data, filter_mem := Bound filter_data\<rparr> in
     if bias_data \<noteq> None \<and> bias_mem ctx1 = None then (Faults NullDereference, ctx1)
     else
     let ctx2 = (if bias_data \<noteq> None then ctx1\<lparr>bias_mem := Some (Bound (the bias_data))\<rparr>
                 else ctx1);
         ctx3 = ctx2\<lparr>dst_mem := Bound dst_data\<rparr>
     in
     case execute_primitives exec (fwd_primitives ctx3) ctx3 of
       Some e \<Rightarrow> (Throws e, ctx3)
     | None \<Rightarrow>
         let ctx4 = ctx3\<lparr>src_mem := DummyData, filter_mem := DummyData\<rparr>;
             ctx5 = (if bias_data \<noteq> None then ctx4\<lparr>bias_mem := Some DummyData\<rparr> else ctx4)
         in (Returns (), ctx5\<lparr>dst_mem := DummyData\<rparr>))"

text \<open>The state between executions: no slot holds a caller's buffer.\<close>

definition slots_unbound :: "('b, 'md, 'tf) ConvFwdContext \<Rightarrow> bool" where
  "slots_unbound ctx =
     (src_mem ctx = DummyData \<and> filter_mem ctx = DummyData \<and> dst_mem ctx = DummyData \<and>
      (bias_mem ctx = None \<or> bias_mem ctx = Some DummyData))"

subsection \<open>Effects, and the filter cache of a kernel instance\<close>

text \<open>
  The buffers a data pointer of \<^verbatim>\<open>Compute\<close> can point to, by where they come from.
\<close>

datatype buffer =
    SrcTensorData
  | FilterTensorData
  | BiasTensorData
  | DstTensorData
  | CachedFilterData
  | FilterOpMem
  | SrcOpMem
  | WeightTensorData
  | CachedWeightData
  | WeightOpMem

text \<open>
  What a call does to its surroundings is recorded in a log, in the order of the calls:
  output allocation, the set-up and the destruction of a primitive, the lookup of a
  primitive in a factory, reorders (inside \<^verbatim>\<open>CacheFilter\<close>, of an uncached filter, of the
  summand into the output), the execution of a primitive with its data pointers, and
  reads of elements of the output buffer.
\<close>

datatype ('p, 'md) event =
    EvAllocateOutput int "int list"
  | EvForwardInputToOutput int int "int list"
  | EvSetup 'p
  | EvDelete 'p
  | EvFactoryGet 'p
  | EvCacheFilterReorder 'md
  | EvFilterReorder 'md
  | EvAddReorder
  | EvExecute 'p buffer buffer "buffer option" buffer
  | EvReadDst nat

text \<open>
  The two persistent tensors of the kernel, guarded by \<^verbatim>\<open>mu_\<close>. A persistent tensor that
  was never allocated has no elements; the descriptor tensor then has no descriptor.
\<close>

record ('e, 'md) filter_cache =
  cached_filter_data :: "'e list"
  cached_filter_md :: "'md option"

definition empty_filter_cache :: "('e, 'md) filter_cache" where
  "empty_filter_cache = \<lparr> cached_filter_data = [], cached_filter_md = None \<rparr>"

record ('p, 'e, 'md) kernel_state =
  log :: "('p, 'md) event list"
  cache :: "('e, 'md) filter_cache"

definition emit :: "('p, 'md) event \<Rightarrow> ('p, 'e, 'md) kernel_state \<Rightarrow> ('p, 'e, 'md) kernel_state" where
  "emit ev st = st\<lparr>log := log st @ [ev]\<rparr>"

text \<open>Sequencing of calls that may throw: the rest runs on a normal return only, and the
  state is as the first call left it.\<close>

definition then_do :: "'a outcome \<times> 's \<Rightarrow> ('a \<Rightarrow> 's \<Rightarrow> 'b outcome \<times> 's) \<Rightarrow> 'b outcome \<times> 's" where
  "then_do r rest =
     (case r of
        (Returns v, st) \<Rightarrow> rest v st
      | (Throws e, st) \<Rightarrow> (Throws e, st)
      | (Faults f, st) \<Rightarrow> (Faults f, st))"

text \<open>\<^verbatim>\<open>IsFilterCacheEmpty\<close>, under the shared lock.\<close>

definition IsFilterCacheEmpty :: "('p, 'e, 'md) kernel_state \<Rightarrow> bool" where
  "IsFilterCacheEmpty st = (length (cached_filter_data (cache st)) = 0)"

text \<open>
  \<^verbatim>\<open>CacheFilter\<close>, under the exclusive lock: nothing to do when the cached tensor has
  elements; otherwise the filter is reordered from its user format to the primitive's weight
  format by the backend (\<open>reorder\<close>, which may throw), the persistent tensors are
  allocated, the descriptor is stored and the reordered data copied. The cached tensor has
  as many elements as the reordered filter.
\<close>

definition CacheFilter ::
  "('md \<Rightarrow> 'md \<Rightarrow> 'e list \<Rightarrow> mkldnn_error + 'e list) \<Rightarrow> 'md \<Rightarrow> 'e list \<Rightarrow> 'md \<Rightarrow>
   ('p, 'e, 'md) kernel_state \<Rightarrow> unit outcome \<times> ('p, 'e, 'md) kernel_state" where
  "CacheFilter reorder weights_desc filter_tensor filter_md st =
     (if length (cached_filter_data (cache st)) > 0 then (Returns (), st)
      else
        (case reorder filter_md weights_desc filter_tensor of
           Inl e \<Rightarrow> (Throws e, st)
         | Inr op_mem \<Rightarrow>
             (Returns (),
              (emit (EvCacheFilterReorder weights_desc) st)
                \<lparr>cache := \<lparr> cached_filter_data = op_mem, cached_filter_md = Some weights_desc \<rparr>\<rparr>)))"

text \<open>
  \<^verbatim>\<open>GetCachedFilter\<close>, under the shared lock: the cached data when the stored descriptor
  equals the requested one, a null pointer otherwise. It dereferences the stored
  descriptor, which is a null pointer as long as nothing was cached.
\<close>

definition GetCachedFilter ::
  "'md \<Rightarrow> ('p, 'e, 'md) kernel_state \<Rightarrow> buffer option outcome" where
  "GetCachedFilter filter_md st =
     (case cached_filter_md (cache st) of
        None \<Rightarrow> Faults NullDereference
      | Some cached_md \<Rightarrow> Returns (if filter_md = cached_md then Some CachedFilterData else None))"

subsection \<open>\<^verbatim>\<open>MklConvOp::Compute\<close>\<close>

datatype format_tag =
  format_undef | format_any | format_x | hwio | hwigo | dhwio | nc | oi | io | format_user nat

text \<open>
  What \<^verbatim>\<open>Compute\<close> calls outside this source: the format conversions of
  \<^verbatim>\<open>mkl_util.h\<close> and \<^verbatim>\<open>tensor_format.h\<close> (\<open>ToString\<close> gives the name of a data
  format), and the backend. \<open>primitive_desc\<close> is the
  construction of the convolution primitive descriptor in \<^verbatim>\<open>Setup\<close>, which throws when the
  backend rejects the parameters and otherwise fixes the weight format \<^verbatim>\<open>weights_desc()\<close>;
  \<open>reorder\<close> is \<^verbatim>\<open>CheckReorderToOpMem\<close> from a user format to a primitive's format;
  \<open>add_reorder\<close> is \<^verbatim>\<open>CreateAndExecuteReorder\<close> for a summand of that many elements;
  \<open>execute\<close> is the primitive's \<^verbatim>\<open>execute\<close>.
\<close>

record ('fmt, 'tf, 'md, 'e) conv_env =
  ToString :: "'fmt \<Rightarrow> string"
  TFDataFormatToMklDnnDataFormat :: "'fmt \<Rightarrow> 'tf"
  TFDataFormatToMklDnn3DDataFormat :: "'fmt \<Rightarrow> 'tf"
  MklTensorFormatToMklDnnDataFormat :: "'tf \<Rightarrow> format_tag"
  ShapeFromFormat :: "'fmt \<Rightarrow> int \<Rightarrow> int list \<Rightarrow> int \<Rightarrow> int list"
  memory_desc :: "int list \<Rightarrow> format_tag \<Rightarrow> 'md"
  primitive_desc :: "'tf MklConvFwdParams \<Rightarrow> mkldnn_error + 'md"
  reorder :: "'md \<Rightarrow> 'md \<Rightarrow> 'e list \<Rightarrow> mkldnn_error + 'e list"
  add_reorder :: "int \<Rightarrow> mkldnn_error option"
  execute :: "'tf MklConvFwdParams \<Rightarrow> (buffer, 'md, 'tf) ConvFwdContext \<Rightarrow> mkldnn_error option"

text \<open>The template arguments \<^verbatim>\<open>Compute\<close> reads: the names of the four element types, and
  two flags.\<close>

record template_args =
  Tinput_name :: string
  Tfilter_name :: string
  Tbias_name :: string
  Toutput_name :: string
  t_pad_enabled :: bool
  t_is_depthwise :: bool

text \<open>
  What \<^verbatim>\<open>GetConvFwdSizesInMklOrder\<close> of the helper class \<^verbatim>\<open>MklDnnConvUtil\<close> leaves in
  \<^verbatim>\<open>Compute\<close>'s local variables, and the status it leaves in the context.
\<close>

record conv_sizes =
  sizes_status :: Status
  sz_src_dims :: "int list"
  sz_filter_dims :: "int list"
  sz_strides :: "int list"
  sz_dilations :: "int list"
  sz_dst_dims_tf_order :: "int list"
  sz_dst_dims_mkl_order :: "int list"
  sz_padding_left :: "int list"
  sz_padding_right :: "int list"

text \<open>
  The inputs of one call: the shape of the source, the values of the filter, the summand
  (\<open>add_forwardable\<close> is the result of \<^verbatim>\<open>forward_input_to_output_with_shape\<close>), the
  input tensor with the paddings of a fused pad (its number of dimensions, the text of
  its shape and its values, flat), and what the helper class computes from the shapes of
  this call: \<^verbatim>\<open>GetConvFwdSizesInMklOrder\<close>, given the two padding vectors \<^verbatim>\<open>Compute\<close> passes in and
  the flag that says whether they are to be used, and the result of
  \<^verbatim>\<open>GetBiasSizeInMklOrder\<close>. Output allocation is taken to succeed.
\<close>

record 'e conv_inputs =
  src_tf_shape :: "int list"
  filter_tensor :: "'e list"
  add_num_elements :: int
  add_forwardable :: bool
  paddings_tf_dims :: nat
  paddings_tf_shape_DebugString :: string
  paddings_tf :: "int list"
  GetConvFwdSizesInMklOrder :: "int list \<Rightarrow> int list \<Rightarrow> bool \<Rightarrow> conv_sizes"
  sz_bias_dims :: "int list"

definition kInputIndex_Add :: int where "kInputIndex_Add = 3"
definition kOutputIndex_Dst :: int where "kOutputIndex_Dst = 0"

text \<open>\<^verbatim>\<open>TensorShape::num_elements\<close>.\<close>

definition num_elements :: "int list \<Rightarrow> int" where
  "num_elements shape = prod_list shape"

text \<open>The corner-case test \<^verbatim>\<open>dst_tf_shape.num_elements() == 0 || dst_dims_tf_order[0] == 0\<close>;
  the second operand is evaluated only when the first is false.\<close>

definition nothing_to_compute :: "int list \<Rightarrow> fault + bool" where
  "nothing_to_compute dst_dims_tf_order =
     (if num_elements dst_dims_tf_order = 0 then Inr True
      else (case vector_index dst_dims_tf_order 0 of
              Inl f \<Rightarrow> Inl f
            | Inr d0 \<Rightarrow> Inr (d0 = 0)))"

text \<open>\<^verbatim>\<open>ExtendConvFwdParams\<close> of the base class.\<close>

definition ExtendConvFwdParams ::
  "('fmt, 'pad) conv_kernel \<Rightarrow> template_args \<Rightarrow> 'tf MklConvFwdParams \<Rightarrow> 'tf MklConvFwdParams" where
  "ExtendConvFwdParams k targs params =
    (let p1 = params\<lparr>dtypes := dtypes params @ Tinput_name targs @ Tfilter_name targs @
                                 Tbias_name targs @ Toutput_name targs\<rparr>;
         p2 = (if m_fuse_add k then
                 p1\<lparr>post_op_params := post_op_params p1 @
                      [\<lparr> po_name = ''sum'', po_alg = undef, po_param = [1], po_partial_key = [] \<rparr>]\<rparr>
               else p1)
     in if m_fuse_activation k then
          p2\<lparr>post_op_params := post_op_params p2 @
               [\<lparr> po_name = ''activation'', po_alg = m_activation_alg k,
                  po_param = [1, m_alpha_or_upbound k, 0], po_partial_key = [] \<rparr>]\<rparr>
        else p2)"

text \<open>The descriptor \<^verbatim>\<open>convFwdDims\<close> that \<^verbatim>\<open>Compute\<close> builds: the sizes, with the dilations
  decremented and the bias dimensions only under bias fusion, extended by the data types
  and the post-operations.\<close>

definition make_convFwdDims ::
  "('fmt, 'pad) conv_kernel \<Rightarrow> template_args \<Rightarrow> 'e conv_inputs \<Rightarrow> conv_sizes \<Rightarrow> 'tf \<Rightarrow>
   'tf MklConvFwdParams" where
  "make_convFwdDims k targs inp sz tf_format =
     ExtendConvFwdParams k targs
       \<lparr> src_dims = sz_src_dims sz, filter_dims = sz_filter_dims sz,
         bias_dims = (if m_fuse_biasadd k then sz_bias_dims inp else []),
         dst_dims = sz_dst_dims_mkl_order sz, strides = sz_strides sz,
         dilations = map (\<lambda>d. d - 1) (sz_dilations sz),
         padding_left = sz_padding_left sz, padding_right = sz_padding_right sz,
         tf_fmt = tf_format, dtypes = [], post_op_params = [] \<rparr>"

text \<open>
  \<^verbatim>\<open>new MklConvFwdPrimitive(convFwdDims)\<close>: the constructor finds \<^verbatim>\<open>conv_fwd\<close> null in its
  fresh context and runs \<^verbatim>\<open>Setup\<close>, which builds the primitive descriptor (the backend
  may throw), creates the memory objects on \<^verbatim>\<open>DummyData\<close> (bias memory only for non-empty
  bias dimensions) and adds one backend primitive.
\<close>

definition MklConvFwdPrimitive_new ::
  "('fmt, 'tf, 'md, 'e) conv_env \<Rightarrow> 'tf MklConvFwdParams \<Rightarrow>
   ('tf MklConvFwdParams, 'e, 'md) kernel_state \<Rightarrow>
   (buffer, 'md, 'tf) ConvFwdContext outcome \<times> ('tf MklConvFwdParams, 'e, 'md) kernel_state" where
  "MklConvFwdPrimitive_new env convFwdDims st =
     (case primitive_desc env convFwdDims of
        Inl e \<Rightarrow> (Throws e, st)
      | Inr weights_desc \<Rightarrow>
          (Returns \<lparr> src_mem = DummyData, filter_mem = DummyData,
                     bias_mem = (if bias_dims convFwdDims \<noteq> [] then Some DummyData else None),
                     dst_mem = DummyData, fwd_pd_weights_desc = weights_desc,
                     fwd_primitives = [convFwdDims] \<rparr>,
           emit (EvSetup convFwdDims) st))"

text \<open>Reading a vector at several indices, in the order of the reads.\<close>

fun read_dims :: "int list \<Rightarrow> nat list \<Rightarrow> fault + int list" where
  "read_dims v [] = Inr []"
| "read_dims v (i # js) =
     (case vector_index v i of
        Inl f \<Rightarrow> Inl f
      | Inr x \<Rightarrow> (case read_dims v js of Inl f \<Rightarrow> Inl f | Inr xs \<Rightarrow> Inr (x # xs)))"

text \<open>The shape \<^verbatim>\<open>AllocateOutputTensor\<close> computes from the output dimensions in MKL order
  (batch, depth, then the spatial dimensions).\<close>

definition output_tf_shape ::
  "('fmt, 'tf, 'md, 'e) conv_env \<Rightarrow> 'fmt \<Rightarrow> bool \<Rightarrow> int list \<Rightarrow> fault + int list" where
  "output_tf_shape env output_tf_format is_conv2d output_dims_mkl_order =
     (if is_conv2d then
        (case read_dims output_dims_mkl_order [0, 2, 3, 1] of
           Inr [out_batch, out_rows, out_cols, out_depth] \<Rightarrow>
             Inr (ShapeFromFormat env output_tf_format out_batch [out_rows, out_cols] out_depth)
         | Inl f \<Rightarrow> Inl f)
      else
        (case read_dims output_dims_mkl_order [0, 2, 3, 4, 1] of
           Inr [out_batch, out_planes, out_rows, out_cols, out_depth] \<Rightarrow>
             Inr (ShapeFromFormat env output_tf_format out_batch
                    [out_planes, out_rows, out_cols] out_depth)
         | Inl f \<Rightarrow> Inl f))"

text \<open>
  \<^verbatim>\<open>AllocateOutputTensor\<close>: under residual fusion the summand is forwarded to the output
  when the framework allows it, and copied into a new output by a reorder otherwise.
\<close>

definition AllocateOutputTensor ::
  "('fmt, 'tf, 'md, 'e) conv_env \<Rightarrow> ('fmt, 'pad) conv_kernel \<Rightarrow> 'e conv_inputs \<Rightarrow> int list \<Rightarrow>
   bool \<Rightarrow> ('p, 'e, 'md) kernel_state \<Rightarrow> unit outcome \<times> ('p, 'e, 'md) kernel_state" where
  "AllocateOutputTensor env k inp output_dims_mkl_order is_conv2d st =
     (case output_tf_shape env (m_data_format k) is_conv2d output_dims_mkl_order of
        Inl f \<Rightarrow> (Faults f, st)
      | Inr shape \<Rightarrow>
          if m_fuse_add k then
            (if add_forwardable inp then
               (Returns (), emit (EvForwardInputToOutput kInputIndex_Add kOutputIndex_Dst shape) st)
             else
               (let st1 = emit (EvAllocateOutput kOutputIndex_Dst shape) st in
                case add_reorder env (add_num_elements inp) of
                  Some e \<Rightarrow> (Throws e, st1)
                | None \<Rightarrow> (Returns (), emit EvAddReorder st1)))
          else (Returns (), emit (EvAllocateOutput kOutputIndex_Dst shape) st))"

text \<open>
  The filter section of \<^verbatim>\<open>Compute\<close>: when the filter's user format differs from the
  primitive's weight format, a constant filter goes through the cache; a filter that is
  not constant, or for which the cache returns a null pointer, is reordered for this call.
\<close>

definition filter_section ::
  "('fmt, 'tf, 'md, 'e) conv_env \<Rightarrow> ('fmt, 'pad) conv_kernel \<Rightarrow> 'md \<Rightarrow> 'md \<Rightarrow> 'e list \<Rightarrow>
   ('p, 'e, 'md) kernel_state \<Rightarrow> buffer outcome \<times> ('p, 'e, 'md) kernel_state" where
  "filter_section env k weights_desc filter_md filter_values st =
     (if filter_md \<noteq> weights_desc then
        then_do
          (if m_is_filter_const k then
             then_do
               (if IsFilterCacheEmpty st
                then CacheFilter (reorder env) weights_desc filter_values filter_md st
                else (Returns (), st))
               (\<lambda>_ st1. (GetCachedFilter weights_desc st1, st1))
           else (Returns None, st))
          (\<lambda>filter_data st2.
             if filter_data \<noteq> None then (Returns (the filter_data), st2)
             else
               (case reorder env filter_md weights_desc filter_values of
                  Inl e \<Rightarrow> (Throws e, st2)
                | Inr op_mem \<Rightarrow> (Returns FilterOpMem, emit (EvFilterReorder weights_desc) st2)))
      else (Returns FilterTensorData, st))"

text \<open>\<^verbatim>\<open>GetBiasHandle\<close> of the base class.\<close>

definition GetBiasHandle :: "('fmt, 'pad) conv_kernel \<Rightarrow> buffer option" where
  "GetBiasHandle k = (if m_fuse_biasadd k then Some BiasTensorData else None)"

text \<open>The execution at the end of \<^verbatim>\<open>Compute\<close>; the primitive is local to the call, so the
  context \<^verbatim>\<open>Execute\<close> leaves is not kept.\<close>

definition execute_section ::
  "('fmt, 'tf, 'md, 'e) conv_env \<Rightarrow> ('fmt, 'pad) conv_kernel \<Rightarrow> 'tf MklConvFwdParams \<Rightarrow>
   (buffer, 'md, 'tf) ConvFwdContext \<Rightarrow> buffer \<Rightarrow>
   ('tf MklConvFwdParams, 'e, 'md) kernel_state \<Rightarrow>
   unit outcome \<times> ('tf MklConvFwdParams, 'e, 'md) kernel_state" where
  "execute_section env k convFwdDims conv_fwd filter_data st =
     (let bias_data = (if m_fuse_biasadd k then GetBiasHandle k else None) in
      (fst (Execute (execute env) SrcTensorData filter_data bias_data DstTensorData conv_fwd),
       emit (EvExecute convFwdDims SrcTensorData filter_data bias_data DstTensorData) st))"

text \<open>
  \<^verbatim>\<open>PadWithConvFusion\<close>. The paddings are the kernel's padding list when
  \<^verbatim>\<open>pad_attr_enabled\<close>, and otherwise the values of the paddings input (the input at
  \<^verbatim>\<open>input_index_pad_\<close>), which must have two dimensions (if it has not, the function
  sets the status and returns, leaving the two vectors empty). Four values are read through a raw pointer, at the positions 2 to 5
  for the format named \<^verbatim>\<open>NHWC\<close> and 4 to 7 for \<^verbatim>\<open>NCHW\<close>, whatever the length of the
  list. The result is the status and the vectors \<^verbatim>\<open>padding_left\<close> and \<^verbatim>\<open>padding_right\<close>.
\<close>

definition PadWithConvFusion ::
  "('fmt, 'tf, 'md, 'e) conv_env \<Rightarrow> ('fmt, 'pad) conv_kernel \<Rightarrow> 'e conv_inputs \<Rightarrow> bool \<Rightarrow>
   fault + (Status \<times> int list \<times> int list)" where
  "PadWithConvFusion env k inp pad_attr_enabled =
    (if \<not> pad_attr_enabled \<and> \<not> (paddings_tf_dims inp = 2) then
       Inr (InvalidArgument
              (''paddings must be 2-dimensional: '' @ paddings_tf_shape_DebugString inp), [], [])
     else
     (let paddings = (if pad_attr_enabled then m_padding_list k else paddings_tf inp);
          data_format = ToString env (m_data_format k)
      in
      case (if data_format = ''NHWC'' then read_dims paddings [2, 3, 4, 5]
            else if data_format = ''NCHW'' then read_dims paddings [4, 5, 6, 7]
            else Inr [0, 0, 0, 0]) of
        Inl f \<Rightarrow> Inl f
      | Inr pads \<Rightarrow>
          Inr (OK, [to_int (pads ! 0), to_int (pads ! 2)],
                   [to_int (pads ! 1), to_int (pads ! 3)])))"

text \<open>
  The head of \<^verbatim>\<open>Compute\<close>: the scan of the padding list for a value that is not 0,
  \<^verbatim>\<open>PadWithConvFusion\<close> under a fused pad or such a value, and the helper's computation of
  the sizes with the padding vectors. \<^verbatim>\<open>Compute\<close> goes on to the helper also when
  \<^verbatim>\<open>PadWithConvFusion\<close> has set the status; the first status set in a call stays.
\<close>

definition pad_attr_enabled_of :: "('fmt, 'pad) conv_kernel \<Rightarrow> bool" where
  "pad_attr_enabled_of k = list_ex (\<lambda>padding_val. padding_val \<noteq> 0) (m_padding_list k)"

definition call_sizes ::
  "('fmt, 'tf, 'md, 'e) conv_env \<Rightarrow> ('fmt, 'pad) conv_kernel \<Rightarrow> 'e conv_inputs \<Rightarrow>
   fault + conv_sizes" where
  "call_sizes env k inp =
    (let pad_attr_enabled = pad_attr_enabled_of k in
     case (if m_fuse_pad k \<or> pad_attr_enabled
           then PadWithConvFusion env k inp pad_attr_enabled
           else Inr (OK, [], [])) of
       Inl f \<Rightarrow> Inl f
     | Inr (pad_status, pad_left, pad_right) \<Rightarrow>
         (let sz = GetConvFwdSizesInMklOrder inp pad_left pad_right
                     (m_fuse_pad k \<or> pad_attr_enabled)
          in Inr (if pad_status \<noteq> OK then sz\<lparr>sizes_status := pad_status\<rparr> else sz)))"

text \<open>
  The \<^verbatim>\<open>try\<close> block of \<^verbatim>\<open>Compute\<close>. A \<^verbatim>\<open>return\<close>, also the one inside \<^verbatim>\<open>OP_REQUIRES\<close>, gives
  \<open>Returns\<close> with the status the context then has.
\<close>

definition MklConvOp_Compute_try ::
  "('fmt, 'tf, 'md, 'e) conv_env \<Rightarrow> ('fmt, 'pad) conv_kernel \<Rightarrow> template_args \<Rightarrow> 'e conv_inputs \<Rightarrow>
   ('tf MklConvFwdParams, 'e, 'md) kernel_state \<Rightarrow>
   Status outcome \<times> ('tf MklConvFwdParams, 'e, 'md) kernel_state" where
  "MklConvOp_Compute_try env k targs inp st =
    (case call_sizes env k inp of
       Inl f \<Rightarrow> (Faults f, st)
     | Inr sz \<Rightarrow>
     if sizes_status sz \<noteq> OK then (Returns (sizes_status sz), st)
     else
     (case nothing_to_compute (sz_dst_dims_tf_order sz) of
        Inl f \<Rightarrow> (Faults f, st)
      | Inr True \<Rightarrow> (Returns OK, emit (EvAllocateOutput kOutputIndex_Dst (src_tf_shape inp)) st)
      | Inr False \<Rightarrow>
     (let is_conv2d = (length (m_strides k) = 4) in
      if \<not> is_conv2d \<and> \<not> (\<not> t_pad_enabled targs) then
        (Returns (InvalidArgument ''Pad + Conv fusion only works for 2D''), st)
      else if \<not> is_conv2d \<and> \<not> (\<not> m_fuse_pad k) then
        (Returns (InvalidArgument ''Pad+Conv fusion only works for 2D''), st)
      else if t_is_depthwise targs \<and> \<not> is_conv2d then
        (Returns (InvalidArgument ''Only 2D convolution is supported for depthwise.''), st)
      else
      (let tf_format = (if is_conv2d then TFDataFormatToMklDnnDataFormat env (m_data_format k)
                        else TFDataFormatToMklDnn3DDataFormat env (m_data_format k));
           mkl_fmt_tag = MklTensorFormatToMklDnnDataFormat env tf_format
       in
       if \<not> (mkl_fmt_tag \<noteq> format_undef) then
         (Returns (InvalidArgument ''Invalid data format''), st)
       else
       (let filter_format = (if is_conv2d then (if t_is_depthwise targs then hwigo else hwio)
                             else dhwio);
            filter_md = memory_desc env (sz_filter_dims sz) filter_format;
            convFwdDims = make_convFwdDims k targs inp sz tf_format
        in
        then_do (MklConvFwdPrimitive_new env convFwdDims st) (\<lambda>conv_fwd st1.
        then_do (AllocateOutputTensor env k inp (sz_dst_dims_mkl_order sz) is_conv2d st1)
          (\<lambda>_ st2.
        then_do (filter_section env k (fwd_pd_weights_desc conv_fwd) filter_md
                   (filter_tensor inp) st2) (\<lambda>filter_data st3.
        then_do (execute_section env k convFwdDims conv_fwd filter_data st3) (\<lambda>_ st4.
        (Returns OK, emit (EvDelete convFwdDims) st4))))))))))"

text \<open>\<^verbatim>\<open>MklConvOp::Compute\<close>: the handler turns an \<^verbatim>\<open>mkldnn::error\<close> into the status
  \<^verbatim>\<open>Aborted\<close>.\<close>

definition MklConvOp_Compute ::
  "('fmt, 'tf, 'md, 'e) conv_env \<Rightarrow> ('fmt, 'pad) conv_kernel \<Rightarrow> template_args \<Rightarrow> 'e conv_inputs \<Rightarrow>
   ('tf MklConvFwdParams, 'e, 'md) kernel_state \<Rightarrow>
   Status outcome \<times> ('tf MklConvFwdParams, 'e, 'md) kernel_state" where
  "MklConvOp_Compute env k targs inp st =
     (case MklConvOp_Compute_try env k targs inp st of
        (Throws e, st') \<Rightarrow> (Returns (Aborted e), st')
      | r \<Rightarrow> r)"

text \<open>The format \<^verbatim>\<open>Compute\<close> passes to the primitive, the descriptor it builds from the
  sizes, and the checks before the creation of the primitive, together: the paddings are
  read without a fault and the helper gives the sizes, no status is set, there is
  something to compute, and the dimension and format checks pass.\<close>

definition conv_tf_format :: "('fmt, 'tf, 'md, 'e) conv_env \<Rightarrow> ('fmt, 'pad) conv_kernel \<Rightarrow> 'tf" where
  "conv_tf_format env k =
     (if length (m_strides k) = 4 then TFDataFormatToMklDnnDataFormat env (m_data_format k)
      else TFDataFormatToMklDnn3DDataFormat env (m_data_format k))"

definition conv_descriptor ::
  "('fmt, 'tf, 'md, 'e) conv_env \<Rightarrow> ('fmt, 'pad) conv_kernel \<Rightarrow> template_args \<Rightarrow> 'e conv_inputs \<Rightarrow>
   conv_sizes \<Rightarrow> 'tf MklConvFwdParams" where
  "conv_descriptor env k targs inp sz = make_convFwdDims k targs inp sz (conv_tf_format env k)"

definition passes_checks ::
  "('fmt, 'tf, 'md, 'e) conv_env \<Rightarrow> ('fmt, 'pad) conv_kernel \<Rightarrow> template_args \<Rightarrow> 'e conv_inputs \<Rightarrow>
   conv_sizes \<Rightarrow> bool" where
  "passes_checks env k targs inp sz =
     (call_sizes env k inp = Inr sz \<and>
      sizes_status sz = OK \<and>
      nothing_to_compute (sz_dst_dims_tf_order sz) = Inr False \<and>
      (length (m_strides k) = 4 \<or>
       (\<not> t_pad_enabled targs \<and> \<not> m_fuse_pad k \<and> \<not> t_is_depthwise targs)) \<and>
      MklTensorFormatToMklDnnDataFormat env (conv_tf_format env k) \<noteq> format_undef)"

subsection \<open>The primitive factory\<close>

text \<open>Modelled from the spec: the primitive factory \<^verbatim>\<open>MklDnnMatMulFwdPrimitiveFactory\<close>, whose
  \<^verbatim>\<open>Get\<close> the fused matmul kernel calls and whose code is not in this source. The
  specification's contract for \<^verbatim>\<open>GetOrCreate(descriptor)\<close> is: on the first request for a
  descriptor value the primitive is built and stored, keyed by descriptor equality; a
  repeated request with an equal descriptor returns the existing handle without
  rebuilding; a failure to build is a backend rejection. The pool is an association list
  from descriptors to handles, \<open>builds\<close> counts the builds, and \<open>build\<close> is the backend's
  construction (\<open>Some e\<close> when it throws).
\<close>

record 'd primitive_factory =
  pool :: "('d \<times> nat) list"
  builds :: nat

definition empty_factory :: "'d primitive_factory" where
  "empty_factory = \<lparr> pool = [], builds = 0 \<rparr>"

definition GetOrCreate ::
  "('d \<Rightarrow> mkldnn_error option) \<Rightarrow> 'd \<Rightarrow> 'd primitive_factory \<Rightarrow>
   nat outcome \<times> 'd primitive_factory" where
  "GetOrCreate build d f =
     (case map_of (pool f) d of
        Some h \<Rightarrow> (Returns h, f)
      | None \<Rightarrow>
          (case build d of
             Some e \<Rightarrow> (Throws e, f)
           | None \<Rightarrow>
               (Returns (length (pool f)),
                \<lparr> pool = pool f @ [(d, length (pool f))], builds = builds f + 1 \<rparr>)))"

subsection \<open>\<^verbatim>\<open>MklFusedMatMulOp::Compute\<close>\<close>

record MklDnnMatMulFwdParams =
  mm_src_dims :: "int list"
  mm_weight_dims :: "int list"
  mm_bias_dims :: "int list"
  mm_dst_dims :: "int list"
  mm_src_format :: format_tag
  mm_weight_format :: format_tag
  mm_post_op_params :: "(string \<times> real list) list"

text \<open>
  The inputs of one call: the shapes of the three tensors, whether source and weight come
  in MKL layout, and the TensorFlow shape recorded in the source's MKL shape.
\<close>

record matmul_inputs =
  in_src_shape :: "int list"
  in_src_is_mkl :: bool
  in_src_mkl_tf_shape :: "int list"
  in_weight_is_mkl :: bool
  in_weight_shape :: "int list"
  in_bias_shape :: "int list"

text \<open>
  What \<^verbatim>\<open>Compute\<close> calls outside this source: the backend (the primitive's construction
  \<open>mm_build\<close> inside the factory, the two reorders, the primitive's execution), the two
  macros that compare a user format with the primitive's, and the base class
  \<^verbatim>\<open>MklDnnMatMulOpBase\<close> (the shape its \<^verbatim>\<open>AllocateOutputTensor\<close> allocates for a source in
  MKL layout, and its weight cache on a state of type \<open>'c\<close>).
\<close>

record 'c matmul_env =
  mm_build :: "MklDnnMatMulFwdParams \<Rightarrow> mkldnn_error option"
  mm_mkl_output_shape :: "MklDnnMatMulFwdParams \<Rightarrow> int list"
  IS_SRC_REORDER_NEEDED :: "matmul_inputs \<Rightarrow> MklDnnMatMulFwdParams \<Rightarrow> bool"
  IS_WEIGHTS_REORDER_NEEDED :: "MklDnnMatMulFwdParams \<Rightarrow> bool"
  mm_reorder_src :: "MklDnnMatMulFwdParams \<Rightarrow> mkldnn_error option"
  mm_reorder_weight :: "MklDnnMatMulFwdParams \<Rightarrow> mkldnn_error option"
  IsWeightCacheEmpty :: "'c \<Rightarrow> bool"
  CacheWeight :: "MklDnnMatMulFwdParams \<Rightarrow> 'c \<Rightarrow> mkldnn_error + 'c"
  GetCachedWeight :: "MklDnnMatMulFwdParams \<Rightarrow> 'c \<Rightarrow> buffer option"
  mm_execute :: "MklDnnMatMulFwdParams \<Rightarrow> buffer \<Rightarrow> buffer \<Rightarrow> buffer \<Rightarrow> buffer \<Rightarrow> mkldnn_error option"

text \<open>The state a call works on: the log, the status of the call's context, the
  process-wide factory and the base class's weight cache.\<close>

record 'c matmul_state =
  mm_log :: "(MklDnnMatMulFwdParams, unit) event list"
  mm_status :: Status
  mm_factory :: "MklDnnMatMulFwdParams primitive_factory"
  mm_weight_cache :: 'c

definition mm_emit :: "(MklDnnMatMulFwdParams, unit) event \<Rightarrow> 'c matmul_state \<Rightarrow> 'c matmul_state" where
  "mm_emit ev st = st\<lparr>mm_log := mm_log st @ [ev]\<rparr>"

text \<open>\<^verbatim>\<open>OpKernelContext::SetStatus\<close>, which \<^verbatim>\<open>OP_REQUIRES\<close> and \<^verbatim>\<open>OP_REQUIRES_OK\<close> call:
  the first error of a call stays.\<close>

definition SetStatus :: "Status \<Rightarrow> 'c matmul_state \<Rightarrow> 'c matmul_state" where
  "SetStatus s st = (if mm_status st = OK then st\<lparr>mm_status := s\<rparr> else st)"

definition IsMatrix :: "int list \<Rightarrow> bool" where
  "IsMatrix shape = (length shape = 2)"

definition IsVector :: "int list \<Rightarrow> bool" where
  "IsVector shape = (length shape = 1)"

text \<open>
  \<^verbatim>\<open>ExtendMklDnnMatMulFwdParams\<close>. An unsupported second post-argument sets the status and
  returns from this function only: \<^verbatim>\<open>Compute\<close> goes on.
\<close>

definition ExtendMklDnnMatMulFwdParams ::
  "matmul_kernel \<Rightarrow> MklDnnMatMulFwdParams \<Rightarrow> 'c matmul_state \<Rightarrow>
   MklDnnMatMulFwdParams \<times> 'c matmul_state" where
  "ExtendMklDnnMatMulFwdParams k params st =
    (if length (mm_fused_ops k) = 2 then
       (let post_op = mm_fused_ops k ! 1 in
        if post_op = ''Relu'' then
          (params\<lparr>mm_post_op_params := mm_post_op_params params @ [(''relu'', [1, 0, 0])]\<rparr>, st)
        else if post_op = ''Relu6'' then
          (params\<lparr>mm_post_op_params := mm_post_op_params params @ [(''relu6'', [1, 6, 0])]\<rparr>, st)
        else if post_op = ''Elu'' then
          (params\<lparr>mm_post_op_params := mm_post_op_params params @ [(''elu'', [1, 1, 0])]\<rparr>, st)
        else if post_op = ''Gelu'' then
          (params\<lparr>mm_post_op_params := mm_post_op_params params @ [(''gelu'', [1, 1, 0])]\<rparr>, st)
        else
          (params,
           SetStatus (InvalidArgument (''Unsupported post-argument in MklFusedMatMul: '' @ post_op)) st))
     else (params, st))"

text \<open>The dimensions \<^verbatim>\<open>Compute\<close> reads from the shapes: \<^verbatim>\<open>batch\<close>, \<^verbatim>\<open>k\<close> and \<^verbatim>\<open>channel\<close>, each
  converted to \<^verbatim>\<open>int\<close>.\<close>

definition mm_src_tf_shape :: "matmul_inputs \<Rightarrow> int list" where
  "mm_src_tf_shape inp = (if in_src_is_mkl inp then in_src_mkl_tf_shape inp else in_src_shape inp)"

definition mm_batch :: "matmul_inputs \<Rightarrow> int" where
  "mm_batch inp = to_int (mm_src_tf_shape inp ! (1 - 1))"

definition mm_k :: "matmul_inputs \<Rightarrow> int" where
  "mm_k inp = to_int (mm_src_tf_shape inp ! 1)"

definition mm_channel :: "matmul_kernel \<Rightarrow> matmul_inputs \<Rightarrow> int" where
  "mm_channel k inp = to_int (in_weight_shape inp ! (1 - (if mm_transpose_b k then 1 else 0)))"

definition matmul_params :: "matmul_kernel \<Rightarrow> matmul_inputs \<Rightarrow> MklDnnMatMulFwdParams" where
  "matmul_params k inp =
     \<lparr> mm_src_dims = [mm_batch inp, mm_k inp],
       mm_weight_dims = [mm_channel k inp, mm_k inp],
       mm_bias_dims = [mm_channel k inp],
       mm_dst_dims = [mm_batch inp, mm_channel k inp],
       mm_src_format = nc,
       mm_weight_format =
         (if mm_is_weight_const k then format_any else (if mm_transpose_b k then oi else io)),
       mm_post_op_params = [] \<rparr>"

text \<open>The loop that looks for the minimum and the maximum of the destination buffer: it
  reads \<^verbatim>\<open>dst_data[i]\<close> while the counter \<^verbatim>\<open>i\<close> is below \<^verbatim>\<open>NumElements()\<close>; what it
  computes only goes to the log stream. The counter is an \<^verbatim>\<open>int\<close> and the number of
  elements an \<^verbatim>\<open>int64\<close>: when the number is larger than the largest \<^verbatim>\<open>int\<close>, the loop
  reads the elements up to that index and then increments the counter beyond its range.\<close>

fun read_dst :: "nat list \<Rightarrow> 'c matmul_state \<Rightarrow> 'c matmul_state" where
  "read_dst [] st = st"
| "read_dst (i # js) st = read_dst js (mm_emit (EvReadDst i) st)"

definition min_max_scan ::
  "int list \<Rightarrow> 'c matmul_state \<Rightarrow> unit outcome \<times> 'c matmul_state" where
  "min_max_scan dst_shape st =
     (if num_elements dst_shape \<le> INT_MAX then
        (Returns (), read_dst [0 ..< nat (num_elements dst_shape)] st)
      else (Faults SignedOverflow, read_dst [0 ..< nat (INT_MAX + 1)] st))"

text \<open>The \<^verbatim>\<open>try\<close> block: source reorder, weight cache or reorder, the scan of the
  destination, the execution.\<close>

definition matmul_weight_section ::
  "'c matmul_env \<Rightarrow> matmul_kernel \<Rightarrow> MklDnnMatMulFwdParams \<Rightarrow> 'c matmul_state \<Rightarrow>
   buffer outcome \<times> 'c matmul_state" where
  "matmul_weight_section env k params st =
     (if IS_WEIGHTS_REORDER_NEEDED env params then
        then_do
          (if mm_is_weight_const k then
             then_do
               (if IsWeightCacheEmpty env (mm_weight_cache st) then
                  (case CacheWeight env params (mm_weight_cache st) of
                     Inl e \<Rightarrow> (Throws e, st)
                   | Inr c \<Rightarrow> (Returns (), st\<lparr>mm_weight_cache := c\<rparr>))
                else (Returns (), st))
               (\<lambda>_ st1. (Returns (GetCachedWeight env params (mm_weight_cache st1)), st1))
           else (Returns None, st))
          (\<lambda>cached_weight_data st2.
             if cached_weight_data \<noteq> None then (Returns (the cached_weight_data), st2)
             else
               (case mm_reorder_weight env params of
                  Some e \<Rightarrow> (Throws e, st2)
                | None \<Rightarrow> (Returns WeightOpMem, st2)))
      else (Returns WeightTensorData, st))"

definition MklFusedMatMulOp_Compute_try ::
  "'c matmul_env \<Rightarrow> matmul_kernel \<Rightarrow> matmul_inputs \<Rightarrow> MklDnnMatMulFwdParams \<Rightarrow> int list \<Rightarrow>
   'c matmul_state \<Rightarrow> unit outcome \<times> 'c matmul_state" where
  "MklFusedMatMulOp_Compute_try env k inp params dst_shape st =
     then_do
       (if IS_SRC_REORDER_NEEDED env inp params then
          (case mm_reorder_src env params of
             Some e \<Rightarrow> (Throws e, st)
           | None \<Rightarrow> (Returns SrcOpMem, st))
        else (Returns SrcTensorData, st))
       (\<lambda>src_data st1.
     then_do (matmul_weight_section env k params st1) (\<lambda>weight_data st2.
     then_do (min_max_scan dst_shape st2) (\<lambda>_ st3.
       (let st4 = mm_emit (EvExecute params src_data weight_data (Some BiasTensorData)
                             DstTensorData) st3
        in case mm_execute env params src_data weight_data BiasTensorData DstTensorData of
             Some e \<Rightarrow> (Throws e, st4)
           | None \<Rightarrow> (Returns (), st4)))))"

text \<open>The checks of the inputs at the head of \<^verbatim>\<open>MklFusedMatMulOp::Compute\<close>, together.\<close>

definition matmul_valid :: "matmul_kernel \<Rightarrow> matmul_inputs \<Rightarrow> bool" where
  "matmul_valid k inp =
     (\<not> in_weight_is_mkl inp \<and> IsMatrix (mm_src_tf_shape inp) \<and>
      IsMatrix (in_weight_shape inp) \<and> IsVector (in_bias_shape inp) \<and>
      mm_k inp = in_weight_shape inp ! (if mm_transpose_b k then 1 else 0) \<and>
      in_bias_shape inp ! 0 = mm_channel k inp)"

text \<open>The destination shape \<^verbatim>\<open>Compute\<close> allocates.\<close>

definition mm_dst_shape :: "'c matmul_env \<Rightarrow> matmul_kernel \<Rightarrow> matmul_inputs \<Rightarrow> MklDnnMatMulFwdParams \<Rightarrow> int list" where
  "mm_dst_shape env k inp params =
     (if in_src_is_mkl inp then mm_mkl_output_shape env params
      else [mm_batch inp, mm_channel k inp])"

text \<open>
  \<^verbatim>\<open>MklFusedMatMulOp::Compute\<close>. The primitive is fetched from the factory and the output
  allocated before the test for an empty result and before the \<^verbatim>\<open>try\<close> block; the handler
  covers the block only. The two messages that quote the shapes are cut to their constant
  part.
\<close>

definition OP_FAILS :: "Status \<Rightarrow> 'c matmul_state \<Rightarrow> unit outcome \<times> 'c matmul_state" where
  "OP_FAILS s st = (Returns (), SetStatus s st)"

definition MklFusedMatMulOp_Compute ::
  "'c matmul_env \<Rightarrow> matmul_kernel \<Rightarrow> matmul_inputs \<Rightarrow> 'c matmul_state \<Rightarrow>
   unit outcome \<times> 'c matmul_state" where
  "MklFusedMatMulOp_Compute env k inp st =
    (if \<not> (\<not> in_weight_is_mkl inp) then
       OP_FAILS (InvalidArgument ''Weight should not be in MKL Layout'') st
     else if \<not> IsMatrix (mm_src_tf_shape inp) then
       OP_FAILS (InvalidArgument ''In[0] is not a matrix'') st
     else if \<not> IsMatrix (in_weight_shape inp) then
       OP_FAILS (InvalidArgument ''In[1] is not a matrix'') st
     else if \<not> IsVector (in_bias_shape inp) then
       OP_FAILS (InvalidArgument ''Biases must be 1D'') st
     else if \<not> (mm_k inp = in_weight_shape inp ! (if mm_transpose_b k then 1 else 0)) then
       OP_FAILS (InvalidArgument ''Matrix size-incompatible'') st
     else if \<not> (in_bias_shape inp ! 0 = mm_channel k inp) then
       OP_FAILS (InvalidArgument ''Must provide as many biases as the channel size'') st
     else
     (case ExtendMklDnnMatMulFwdParams k (matmul_params k inp) st of (params, st0) \<Rightarrow>
      (let st1 = mm_emit (EvFactoryGet params) st0 in
       case GetOrCreate (mm_build env) params (mm_factory st1) of
         (Throws e, f) \<Rightarrow> (Throws e, st1\<lparr>mm_factory := f\<rparr>)
       | (Faults x, f) \<Rightarrow> (Faults x, st1\<lparr>mm_factory := f\<rparr>)
       | (Returns matmul_prim, f) \<Rightarrow>
      (let st2 = st1\<lparr>mm_factory := f\<rparr>;
           dst_shape = mm_dst_shape env k inp params;
           st3 = mm_emit (EvAllocateOutput 0 dst_shape) st2
       in
       if mm_batch inp = 0 \<or> mm_channel k inp = 0 then (Returns (), st3)
       else
         (case MklFusedMatMulOp_Compute_try env k inp params dst_shape st3 of
            (Throws e, st4) \<Rightarrow> OP_FAILS (Aborted e) st4
          | r \<Rightarrow> r)))))"

subsection \<open>Threads in the filter section\<close>

text \<open>
  Several threads run \<^verbatim>\<open>Compute\<close> on one kernel instance with a constant filter whose
  format differs from the primitive's. Each of \<^verbatim>\<open>IsFilterCacheEmpty\<close>, \<^verbatim>\<open>CacheFilter\<close> and
  \<^verbatim>\<open>GetCachedFilter\<close> holds \<^verbatim>\<open>mu_\<close> for its whole body, so each is one atomic step on the
  shared state, and a run of the threads is an interleaving of their steps. A thread is
  before one of the three calls, before the reorder it falls back to when the cache gave a
  null pointer, done with the filter data it will execute with, or stopped by an exception
  or a fault.
\<close>

datatype thread_pc =
    AtIsFilterCacheEmpty
  | AtCacheFilter
  | AtGetCachedFilter
  | AtReorder
  | Done buffer
  | Stopped

definition thread_step ::
  "('md \<Rightarrow> 'md \<Rightarrow> 'e list \<Rightarrow> mkldnn_error + 'e list) \<Rightarrow> 'md \<Rightarrow> 'md \<Rightarrow> 'e list \<Rightarrow>
   thread_pc \<Rightarrow> ('p, 'e, 'md) kernel_state \<Rightarrow> thread_pc \<times> ('p, 'e, 'md) kernel_state" where
  "thread_step reorder_fn weights_desc filter_md filter_values pc st =
     (case pc of
        AtIsFilterCacheEmpty \<Rightarrow>
          (if IsFilterCacheEmpty st then (AtCacheFilter, st) else (AtGetCachedFilter, st))
      | AtCacheFilter \<Rightarrow>
          (case CacheFilter reorder_fn weights_desc filter_values filter_md st of
             (Returns u, st') \<Rightarrow> (AtGetCachedFilter, st')
           | (Throws e, st') \<Rightarrow> (Stopped, st')
           | (Faults f, st') \<Rightarrow> (Stopped, st'))
      | AtGetCachedFilter \<Rightarrow>
          (case GetCachedFilter weights_desc st of
             Returns (Some b) \<Rightarrow> (Done b, st)
           | Returns None \<Rightarrow> (AtReorder, st)
           | Throws e \<Rightarrow> (Stopped, st)
           | Faults f \<Rightarrow> (Stopped, st))
      | AtReorder \<Rightarrow>
          (case reorder_fn filter_md weights_desc filter_values of
             Inl e \<Rightarrow> (Stopped, st)
           | Inr op_mem \<Rightarrow> (Done FilterOpMem, emit (EvFilterReorder weights_desc) st))
      | Done b \<Rightarrow> (Done b, st)
      | Stopped \<Rightarrow> (Stopped, st))"

text \<open>A schedule names the thread that takes the next step.\<close>

fun run_threads ::
  "('md \<Rightarrow> 'md \<Rightarrow> 'e list \<Rightarrow> mkldnn_error + 'e list) \<Rightarrow> 'md \<Rightarrow> 'md \<Rightarrow> 'e list \<Rightarrow>
   nat list \<Rightarrow> thread_pc list \<times> ('p, 'e, 'md) kernel_state \<Rightarrow>
   thread_pc list \<times> ('p, 'e, 'md) kernel_state" where
  "run_threads reorder_fn weights_desc filter_md filter_values [] c = c"
| "run_threads reorder_fn weights_desc filter_md filter_values (i # sched) (pcs, st) =
     (if i < length pcs then
        (case thread_step reorder_fn weights_desc filter_md filter_values (pcs ! i) st of
           (pc', st') \<Rightarrow>
             run_threads reorder_fn weights_desc filter_md filter_values sched (pcs[i := pc'], st'))
      else run_threads reorder_fn weights_desc filter_md filter_values sched (pcs, st))"

definition is_Done :: "thread_pc \<Rightarrow> bool" where
  "is_Done pc = (case pc of Done b \<Rightarrow> True | _ \<Rightarrow> False)"

text \<open>
  What holds at every point of a run that starts with an empty cache, for a conversion
  that yields \<open>op_mem\<close>: while the cache is empty nothing was logged and every thread is
  before its check or before \<^verbatim>\<open>CacheFilter\<close>; once it is filled, it was filled once, with
  \<open>op_mem\<close> under the requested descriptor, and no thread is on the fallback path.
\<close>

definition threads_inv ::
  "'md \<Rightarrow> 'e list \<Rightarrow> ('p, 'e, 'md) kernel_state \<Rightarrow> nat \<Rightarrow> thread_pc list \<Rightarrow>
   ('p, 'e, 'md) kernel_state \<Rightarrow> bool" where
  "threads_inv weights_desc op_mem st0 n pcs st =
     (length pcs = n \<and>
      (if IsFilterCacheEmpty st then
         log st = log st0 \<and> cache st = cache st0 \<and>
         list_all (\<lambda>pc. pc = AtIsFilterCacheEmpty \<or> pc = AtCacheFilter) pcs
       else
         log st = log st0 @ [EvCacheFilterReorder weights_desc] \<and>
         cache st = \<lparr> cached_filter_data = op_mem, cached_filter_md = Some weights_desc \<rparr> \<and>
         list_all (\<lambda>pc. pc = AtIsFilterCacheEmpty \<or> pc = AtCacheFilter \<or>
                        pc = AtGetCachedFilter \<or> pc = Done CachedFilterData) pcs))"

text \<open>How far a thread has come.\<close>

definition pc_rank :: "thread_pc \<Rightarrow> nat" where
  "pc_rank pc =
     (case pc of
        AtIsFilterCacheEmpty \<Rightarrow> 0
      | AtCacheFilter \<Rightarrow> 1
      | AtGetCachedFilter \<Rightarrow> 2
      | AtReorder \<Rightarrow> 3
      | Done b \<Rightarrow> 4
      | Stopped \<Rightarrow> 4)"

text \<open>Counting events of a log.\<close>

definition is_setup :: "('p, 'md) event \<Rightarrow> bool" where
  "is_setup ev = (case ev of EvSetup d \<Rightarrow> True | _ \<Rightarrow> False)"

definition count_events :: "(('p, 'md) event \<Rightarrow> bool) \<Rightarrow> ('p, 'md) event list \<Rightarrow> nat" where
  "count_events P evs = length (filter P evs)"

subsection \<open>Concrete inputs\<close>

text \<open>An attribute set with no attribute present, from which examples are built by
  record update.\<close>

definition no_attrs :: "unit attrs" where
  "no_attrs =
     \<lparr> attr_dilations = None, attr_padding_list = None, attr_explicit_paddings = None,
       attr_strides = None, attr_data_format = None, attr_padding = None,
       attr_is_filter_const = None, attr_fused_ops = None, attr_num_args = None,
       attr_leakyrelu_alpha = None, attr_transpose_a = None, attr_transpose_b = None \<rparr>"

text \<open>A fused matmul node whose \<^verbatim>\<open>fused_ops\<close> list is empty.\<close>

definition matmul_attrs_empty_fused_ops :: "unit attrs" where
  "matmul_attrs_empty_fused_ops =
     no_attrs\<lparr> attr_fused_ops := Some [], attr_transpose_a := Some False,
               attr_transpose_b := Some False, attr_is_filter_const := Some True \<rparr>"

text \<open>Modelled from the spec: the tensor format library (\<^verbatim>\<open>FormatFromString\<close>,
  \<^verbatim>\<open>GetTensorDim\<close>) is outside this source, and the specification only says that the data
  layout decides which positions hold which dimension. The instance below, used for
  concrete evaluations, follows the layouts the comments of \<^verbatim>\<open>PadWithConvFusion\<close> describe:
  the batch is dimension 0; the channel is the last dimension in NHWC and dimension 1 in
  NCHW; the spatial dimensions fill the remaining positions in order.
\<close>

datatype TensorFormat = FORMAT_NHWC | FORMAT_NCHW

definition spatial_number :: "nat \<Rightarrow> char \<Rightarrow> nat" where
  "spatial_number n d =
     (if d = CHR ''0'' then 0 else if d = CHR ''1'' then 1 else if d = CHR ''2'' then 2
      else if d = CHR ''H'' then n - 4 else n - 3)"

definition dim_index :: "TensorFormat \<Rightarrow> nat \<Rightarrow> char \<Rightarrow> nat" where
  "dim_index fmt n d =
     (if d = CHR ''N'' then 0
      else if d = CHR ''C'' then (case fmt of FORMAT_NHWC \<Rightarrow> n - 1 | FORMAT_NCHW \<Rightarrow> 1)
      else (case fmt of FORMAT_NHWC \<Rightarrow> 1 | FORMAT_NCHW \<Rightarrow> 2) + spatial_number n d)"

definition example_lib :: "TensorFormat tensor_format_lib" where
  "example_lib =
     \<lparr> FormatFromString =
         (\<lambda>s. if s = ''NHWC'' \<or> s = ''NDHWC'' then Some FORMAT_NHWC
              else if s = ''NCHW'' \<or> s = ''NCDHW'' then Some FORMAT_NCHW
              else None),
       GetTensorDim = (\<lambda>v fmt d. v ! dim_index fmt (length v) d) \<rparr>"

text \<open>A well-formed 2-D convolution node, and one whose dilations have five entries for
  four strides.\<close>

definition conv_attrs_valid :: "unit attrs" where
  "conv_attrs_valid =
     no_attrs\<lparr> attr_dilations := Some [1, 1, 1, 1], attr_strides := Some [1, 1, 1, 1],
               attr_data_format := Some ''NHWC'', attr_padding := Some () \<rparr>"

definition conv_attrs_rank_mismatch :: "unit attrs" where
  "conv_attrs_rank_mismatch =
     no_attrs\<lparr> attr_dilations := Some [1, 1, 1, 1, 1], attr_strides := Some [1, 1, 1, 1],
               attr_data_format := Some ''NHWC'', attr_padding := Some () \<rparr>"

text \<open>The same node with a list of explicit paddings of one value.\<close>

definition conv_attrs_short_paddings :: "unit attrs" where
  "conv_attrs_short_paddings = conv_attrs_valid\<lparr> attr_explicit_paddings := Some [1] \<rparr>"

text \<open>The members the base constructor leaves for \<open>conv_attrs_valid\<close>.\<close>

definition example_kernel :: "(TensorFormat, unit) conv_kernel" where
  "example_kernel =
     \<lparr> m_strides = [1, 1, 1, 1], m_dilations = [1, 1, 1, 1], m_padding_list = [],
       m_is_filter_const = False, m_padding = (), m_data_format = FORMAT_NHWC,
       m_fuse_biasadd = False, m_fuse_activation = False, m_fuse_pad = False,
       m_fuse_add = False, m_alpha_or_upbound = 0, m_activation_alg = undef,
       m_input_index_pad = 2 \<rparr>"

text \<open>Fusion attributes: an empty list, a lone activation, and bias with residual add and
  activation.\<close>

definition fused_attrs_empty :: "unit attrs" where
  "fused_attrs_empty = conv_attrs_valid\<lparr> attr_fused_ops := Some [], attr_num_args := Some 0 \<rparr>"

definition fused_attrs_relu :: "unit attrs" where
  "fused_attrs_relu =
     conv_attrs_valid\<lparr> attr_fused_ops := Some [''Relu''], attr_num_args := Some 1 \<rparr>"

definition fused_attrs_bias_add_relu :: "unit attrs" where
  "fused_attrs_bias_add_relu =
     conv_attrs_valid\<lparr> attr_fused_ops := Some [''BiasAdd'', ''Add'', ''Relu''],
                       attr_num_args := Some 2 \<rparr>"

text \<open>A primitive as \<^verbatim>\<open>Setup\<close> leaves it, for a descriptor without bias; a backend whose
  \<^verbatim>\<open>execute\<close> throws, and one whose \<^verbatim>\<open>execute\<close> returns.\<close>

definition example_convFwdDims :: "unit MklConvFwdParams" where
  "example_convFwdDims =
     \<lparr> src_dims = [1, 1, 4, 4], filter_dims = [1, 1, 3, 3], bias_dims = [],
       dst_dims = [1, 1, 2, 2], strides = [1, 1], dilations = [0, 0],
       padding_left = [0, 0], padding_right = [0, 0], tf_fmt = (),
       dtypes = ''ffff'', post_op_params = [] \<rparr>"

definition example_context :: "(buffer, nat, unit) ConvFwdContext" where
  "example_context =
     \<lparr> src_mem = DummyData, filter_mem = DummyData, bias_mem = None, dst_mem = DummyData,
       fwd_pd_weights_desc = 1, fwd_primitives = [example_convFwdDims] \<rparr>"

definition backend_error :: mkldnn_error where
  "backend_error = MkldnnError 1 ''backend failure''"

definition execute_throws ::
  "unit MklConvFwdParams \<Rightarrow> (buffer, nat, unit) ConvFwdContext \<Rightarrow> mkldnn_error option" where
  "execute_throws p c = Some backend_error"

definition execute_returns ::
  "unit MklConvFwdParams \<Rightarrow> (buffer, nat, unit) ConvFwdContext \<Rightarrow> mkldnn_error option" where
  "execute_returns p c = None"

text \<open>The fusion lists that the chain of comparisons in \<^verbatim>\<open>MklFusedConvOp\<close> names.\<close>

definition in_chain :: "string list \<Rightarrow> bool" where
  "in_chain ops =
   (ops = [''BiasAdd''] \<or> ops = [''Relu''] \<or> ops = [''Relu6''] \<or> ops = [''Elu''] \<or>
    ops = [''LeakyRelu''] \<or>
    ops = [''BiasAdd'', ''Relu''] \<or> ops = [''BiasAdd'', ''Relu6''] \<or> ops = [''BiasAdd'', ''Elu''] \<or>
    ops = [''BiasAdd'', ''LeakyRelu''] \<or> ops = [''BiasAdd'', ''Add''] \<or>
    ops = [''BiasAdd'', ''Add'', ''Relu''] \<or> ops = [''BiasAdd'', ''Add'', ''Relu6''] \<or>
    ops = [''BiasAdd'', ''Add'', ''Elu''] \<or> ops = [''BiasAdd'', ''Add'', ''LeakyRelu''])"

text \<open>
  A backend and format library for concrete evaluations. Memory descriptors are numbers:
  0 is the filter's user format, and the primitive built for a descriptor wants its
  weights in format 1; the reorder reverses the data; nothing throws.
\<close>

definition example_env :: "(TensorFormat, unit, nat, int) conv_env" where
  "example_env =
     \<lparr> ToString = (\<lambda>fmt. case fmt of FORMAT_NHWC \<Rightarrow> ''NHWC'' | FORMAT_NCHW \<Rightarrow> ''NCHW''),
       TFDataFormatToMklDnnDataFormat = (\<lambda>fmt. ()),
       TFDataFormatToMklDnn3DDataFormat = (\<lambda>fmt. ()),
       MklTensorFormatToMklDnnDataFormat = (\<lambda>t. format_user 0),
       ShapeFromFormat =
         (\<lambda>fmt n spatial c.
            case fmt of FORMAT_NHWC \<Rightarrow> n # spatial @ [c] | FORMAT_NCHW \<Rightarrow> n # c # spatial),
       memory_desc = (\<lambda>dims tag. 0),
       primitive_desc = (\<lambda>p. Inr 1),
       reorder = (\<lambda>from_md to_md values. Inr (rev values)),
       add_reorder = (\<lambda>n. None),
       execute = (\<lambda>p c. None) \<rparr>"

definition example_targs :: template_args where
  "example_targs =
     \<lparr> Tinput_name = ''f'', Tfilter_name = ''f'', Tbias_name = ''f'', Toutput_name = ''f'',
       t_pad_enabled = False, t_is_depthwise = False \<rparr>"

text \<open>A 4x4 image with one channel and a 3x3 filter, stride 1, no padding: a 2x2 output.
  The sizes are what the helper computes for a call that passes it no paddings (no fused
  pad, no explicit padding); there is no paddings input.\<close>

definition example_sizes :: conv_sizes where
  "example_sizes =
     \<lparr> sizes_status = OK,
       sz_src_dims = [1, 1, 4, 4], sz_filter_dims = [1, 1, 3, 3], sz_strides = [1, 1],
       sz_dilations = [1, 1], sz_dst_dims_tf_order = [1, 2, 2, 1],
       sz_dst_dims_mkl_order = [1, 1, 2, 2], sz_padding_left = [0, 0],
       sz_padding_right = [0, 0] \<rparr>"

definition example_inputs :: "int conv_inputs" where
  "example_inputs =
     \<lparr> src_tf_shape = [1, 4, 4, 1], filter_tensor = [1, 2, 3, 4, 5, 6, 7, 8, 9],
       add_num_elements = 0, add_forwardable = False,
       paddings_tf_dims = 0, paddings_tf_shape_DebugString = ''[]'', paddings_tf = [],
       GetConvFwdSizesInMklOrder = (\<lambda>pad_left pad_right pad_enabled. example_sizes),
       sz_bias_dims = [] \<rparr>"



text \<open>The members the base constructor leaves for \<open>conv_attrs_short_paddings\<close>.\<close>

definition short_padding_kernel :: "(TensorFormat, unit) conv_kernel" where
  "short_padding_kernel = example_kernel\<lparr> m_padding_list := [1] \<rparr>"

text \<open>The paddings of the example in the comment of \<^verbatim>\<open>PadWithConvFusion\<close>, as explicit
  paddings of a kernel with format \<^verbatim>\<open>NHWC\<close> and of one with format \<^verbatim>\<open>NCHW\<close>.\<close>

definition padded_nhwc_kernel :: "(TensorFormat, unit) conv_kernel" where
  "padded_nhwc_kernel = example_kernel\<lparr> m_padding_list := [0, 0, 1, 2, 3, 4, 0, 0] \<rparr>"

definition padded_nchw_kernel :: "(TensorFormat, unit) conv_kernel" where
  "padded_nchw_kernel =
     example_kernel\<lparr> m_padding_list := [0, 0, 0, 0, 1, 2, 3, 4], m_data_format := FORMAT_NCHW \<rparr>"

definition initial_state :: "(unit MklConvFwdParams, int, nat) kernel_state" where
  "initial_state = \<lparr> log = [], cache = empty_filter_cache \<rparr>"

text \<open>A kernel with a constant filter, and a state whose cache holds a filter converted for
  weight format 1.\<close>

definition const_filter_kernel :: "(TensorFormat, unit) conv_kernel" where
  "const_filter_kernel = example_kernel\<lparr> m_is_filter_const := True \<rparr>"

definition cached_state :: "(unit MklConvFwdParams, int, nat) kernel_state" where
  "cached_state =
     \<lparr> log = [], cache = \<lparr> cached_filter_data = [9, 8, 7, 6, 5, 4, 3, 2, 1],
                            cached_filter_md = Some 1 \<rparr> \<rparr>"

text \<open>A fused matmul kernel, a backend for it that never throws and never reorders, and
  two calls: a 0x3 source (an empty batch) and a 2x3 source, with a 3x2 weight.\<close>

definition example_matmul_kernel :: matmul_kernel where
  "example_matmul_kernel =
     \<lparr> mm_fused_ops = [''BiasAdd''], mm_transpose_a = False, mm_transpose_b = False,
       mm_is_weight_const = False \<rparr>"

definition example_matmul_env :: "unit matmul_env" where
  "example_matmul_env =
     \<lparr> mm_build = (\<lambda>p. None),
       mm_mkl_output_shape = (\<lambda>p. [num_elements (mm_dst_dims p)]),
       IS_SRC_REORDER_NEEDED = (\<lambda>inp p. False),
       IS_WEIGHTS_REORDER_NEEDED = (\<lambda>p. False),
       mm_reorder_src = (\<lambda>p. None),
       mm_reorder_weight = (\<lambda>p. None),
       IsWeightCacheEmpty = (\<lambda>c. True),
       CacheWeight = (\<lambda>p c. Inr c),
       GetCachedWeight = (\<lambda>p c. None),
       mm_execute = (\<lambda>p s w b d. None) \<rparr>"

text \<open>The same backend, except that it rejects every primitive.\<close>

definition rejecting_matmul_env :: "unit matmul_env" where
  "rejecting_matmul_env = example_matmul_env\<lparr> mm_build := (\<lambda>p. Some backend_error) \<rparr>"



definition example_matmul_inputs :: matmul_inputs where
  "example_matmul_inputs =
     \<lparr> in_src_shape = [2, 3], in_src_is_mkl = False, in_src_mkl_tf_shape = [],
       in_weight_is_mkl = False, in_weight_shape = [3, 2], in_bias_shape = [2] \<rparr>"


definition initial_matmul_state :: "unit matmul_state" where
  "initial_matmul_state =
     \<lparr> mm_log = [], mm_status = OK, mm_factory = empty_factory, mm_weight_cache = () \<rparr>"


section \<open>Properties\<close>

lemmas seq_defs = OP_REQUIRES_OK_def OP_REQUIRES_def GetAttr_def HasAttr_def status_to_result_def

subsection \<open>The fused matmul constructor reads past an empty \<^verbatim>\<open>fused_ops\<close>\<close>

text \<open>
  Claim C9. The constructor of the fused matmul kernel checks only
  \<^verbatim>\<open>fused_ops_.size() <= 2\<close> before it reads \<^verbatim>\<open>fused_ops_[0]\<close>. The read is out of bounds
  exactly when the attribute list is empty (and the four attributes are present, so that
  the read is reached): index 0 in a vector of size 0.
\<close>

theorem fused_matmul_ctor_out_of_bounds:
  "(MklFusedMatMulOp_ctor a = Inl f) =
     (attr_fused_ops a = Some [] \<and> attr_transpose_a a \<noteq> None \<and> attr_transpose_b a \<noteq> None \<and>
      attr_is_filter_const a \<noteq> None \<and> f = OutOfBoundsRead 0 0)"
  by (auto simp: MklFusedMatMulOp_ctor_def GetAttr_def vector_index_def
           split: option.splits sum.splits if_splits)

theorem fused_matmul_ctor_out_of_bounds_witness:
  "MklFusedMatMulOp_ctor matmul_attrs_empty_fused_ops = Inl (OutOfBoundsRead 0 0)"
  using fused_matmul_ctor_out_of_bounds [of matmul_attrs_empty_fused_ops "OutOfBoundsRead 0 0"]
  by (simp add: matmul_attrs_empty_fused_ops_def no_attrs_def)

subsection \<open>Construction-time validation\<close>

lemma check_dilations_OK:
  "(check_dilations lib str dil fmt = OK) =
     (if length str = 4 then
        length dil = 4 \<and> GetTensorDim lib dil fmt CHR ''N'' = 1 \<and> GetTensorDim lib dil fmt CHR ''C'' = 1 \<and>
        GetTensorDim lib dil fmt CHR ''H'' > 0 \<and> GetTensorDim lib dil fmt CHR ''W'' > 0
      else if length str = 5 then
        length dil = 5 \<and> GetTensorDim lib dil fmt CHR ''N'' = 1 \<and> GetTensorDim lib dil fmt CHR ''C'' = 1 \<and>
        GetTensorDim lib dil fmt CHR ''0'' > 0 \<and> GetTensorDim lib dil fmt CHR ''1'' > 0 \<and>
        GetTensorDim lib dil fmt CHR ''2'' > 0
      else True)"
  by (auto simp: check_dilations_def Let_def)

lemma conv_ctor_succeeds_iff:
  "(\<exists>k. MklConvOp_ctor lib be pe a = Inr k) =
   (\<exists>dil str df fmt pad.
      attr_dilations a = Some dil \<and> attr_strides a = Some str \<and> attr_data_format a = Some df \<and>
      FormatFromString lib df = Some fmt \<and> attr_padding a = Some pad \<and>
      \<not> (attr_padding_list a \<noteq> None \<and> attr_explicit_paddings a \<noteq> None) \<and>
      (length str = 4 \<or> length str = 5) \<and>
      GetTensorDim lib str fmt CHR ''N'' = 1 \<and> GetTensorDim lib str fmt CHR ''C'' = 1 \<and>
      check_dilations lib str dil fmt = OK)"
  by (auto simp: MklConvOp_ctor_def seq_defs Let_def split: option.splits sum.splits if_splits)

lemma conv_ctor_not_OK: "MklConvOp_ctor lib be pe a \<noteq> Inl OK"
  by (auto simp: MklConvOp_ctor_def seq_defs Let_def split: option.splits sum.splits if_splits)

text \<open>
  Claim C7, as the code has it. The constructor of \<^verbatim>\<open>MklConvOp\<close> is a pure check of the
  attributes. It succeeds exactly when the attributes \<^verbatim>\<open>dilations\<close>, \<^verbatim>\<open>strides\<close>,
  \<^verbatim>\<open>data_format\<close> and \<^verbatim>\<open>padding\<close> are present, \<^verbatim>\<open>padding_list\<close> and \<^verbatim>\<open>explicit_paddings\<close> are
  not both present, the data format is recognised, there are 4 or 5 strides and as many
  dilations, stride and dilation are 1 on the batch and on the channel dimension, and
  every spatial dilation is larger than 0. In every other case it fails with a status
  that is not \<^verbatim>\<open>OK\<close>. The claim's list of failures leaves out the unrecognised data format,
  the absent attributes and the dilations whose number differs from the strides'.
\<close>

theorem conv_ctor_validation:
  "((\<exists>k. MklConvOp_ctor lib be pe a = Inr k) =
     (\<exists>dil str df fmt pad.
        attr_dilations a = Some dil \<and> attr_strides a = Some str \<and>
        attr_data_format a = Some df \<and> FormatFromString lib df = Some fmt \<and>
        attr_padding a = Some pad \<and>
        \<not> (attr_padding_list a \<noteq> None \<and> attr_explicit_paddings a \<noteq> None) \<and>
        (length str = 4 \<or> length str = 5) \<and> length dil = length str \<and>
        GetTensorDim lib str fmt CHR ''N'' = 1 \<and> GetTensorDim lib str fmt CHR ''C'' = 1 \<and>
        GetTensorDim lib dil fmt CHR ''N'' = 1 \<and> GetTensorDim lib dil fmt CHR ''C'' = 1 \<and>
        (if length str = 4
         then GetTensorDim lib dil fmt CHR ''H'' > 0 \<and> GetTensorDim lib dil fmt CHR ''W'' > 0
         else GetTensorDim lib dil fmt CHR ''0'' > 0 \<and> GetTensorDim lib dil fmt CHR ''1'' > 0 \<and>
              GetTensorDim lib dil fmt CHR ''2'' > 0))) \<and>
   MklConvOp_ctor lib be pe a \<noteq> Inl OK"
proof -
  have "(\<exists>k. MklConvOp_ctor lib be pe a = Inr k) =
     (\<exists>dil str df fmt pad.
        attr_dilations a = Some dil \<and> attr_strides a = Some str \<and>
        attr_data_format a = Some df \<and> FormatFromString lib df = Some fmt \<and>
        attr_padding a = Some pad \<and>
        \<not> (attr_padding_list a \<noteq> None \<and> attr_explicit_paddings a \<noteq> None) \<and>
        (length str = 4 \<or> length str = 5) \<and> length dil = length str \<and>
        GetTensorDim lib str fmt CHR ''N'' = 1 \<and> GetTensorDim lib str fmt CHR ''C'' = 1 \<and>
        GetTensorDim lib dil fmt CHR ''N'' = 1 \<and> GetTensorDim lib dil fmt CHR ''C'' = 1 \<and>
        (if length str = 4
         then GetTensorDim lib dil fmt CHR ''H'' > 0 \<and> GetTensorDim lib dil fmt CHR ''W'' > 0
         else GetTensorDim lib dil fmt CHR ''0'' > 0 \<and> GetTensorDim lib dil fmt CHR ''1'' > 0 \<and>
              GetTensorDim lib dil fmt CHR ''2'' > 0))"
    unfolding conv_ctor_succeeds_iff check_dilations_OK
    by (intro iff_exI) auto
  then show ?thesis using conv_ctor_not_OK by blast
qed

text \<open>The well-formed node \<open>conv_attrs_valid\<close> is constructed, with the members
  \<open>example_kernel\<close>.\<close>

theorem conv_ctor_validation_witness:
  "MklConvOp_ctor example_lib False False conv_attrs_valid = Inr example_kernel"
proof -
  have "\<exists>k. MklConvOp_ctor example_lib False False conv_attrs_valid = Inr k"
    using conv_ctor_validation [of example_lib False False conv_attrs_valid]
    by (simp add: conv_attrs_valid_def no_attrs_def example_lib_def dim_index_def
          spatial_number_def)
  then obtain k where k: "MklConvOp_ctor example_lib False False conv_attrs_valid = Inr k" ..
  then have "k = example_kernel"
    by (simp add: MklConvOp_ctor_def seq_defs check_dilations_def conv_attrs_valid_def
          no_attrs_def example_lib_def dim_index_def spatial_number_def example_kernel_def)
  with k show ?thesis by simp
qed

text \<open>
  Claim C7 as stated fails: with four strides and five dilations, all equal to 1, and no
  padding list, none of the claim's conditions for a failure holds, and the constructor
  fails all the same.
\<close>

theorem conv_ctor_rank_mismatch_counterexample:
  "attr_strides conv_attrs_rank_mismatch = Some [1, 1, 1, 1] \<and>
   attr_dilations conv_attrs_rank_mismatch = Some [1, 1, 1, 1, 1] \<and>
   attr_padding_list conv_attrs_rank_mismatch = None \<and>
   attr_explicit_paddings conv_attrs_rank_mismatch = None \<and>
   MklConvOp_ctor example_lib False False conv_attrs_rank_mismatch =
     Inl (InvalidArgument ''Sliding window dilations field must specify 4 dimensions'')"
  by (simp add: conv_attrs_rank_mismatch_def no_attrs_def example_lib_def dim_index_def
        spatial_number_def MklConvOp_ctor_def seq_defs check_dilations_def)

subsection \<open>Fusion policy\<close>

lemma kind_of_BiasAdd: "(kind_of s = Some BiasAdd) = (s = ''BiasAdd'')"
  by (simp add: kind_of_def activation_names_def)

lemma kind_of_Add: "(kind_of s = Some ResidualAdd) = (s = ''Add'')"
  by (simp add: kind_of_def activation_names_def)

lemma kind_of_Activation:
  "(kind_of s = Some Activation) =
     (s = ''Relu'' \<or> s = ''Relu6'' \<or> s = ''Elu'' \<or> s = ''LeakyRelu'')"
  by (auto simp add: kind_of_def activation_names_def)

lemma in_chain_iff:
  "in_chain ops = (ops \<noteq> [] \<and> map kind_of ops \<in> set (map (map Some) spec_legal_fusions))"
  (is "?L = ?R")
proof
  assume ?R
  then show ?L
    unfolding in_chain_def
    by (auto simp: spec_legal_fusions_def map_eq_Cons_conv kind_of_BiasAdd kind_of_Add
          kind_of_Activation)
next
  assume ?L
  then show ?R
    unfolding in_chain_def
    by (auto simp: spec_legal_fusions_def kind_of_def activation_names_def)
qed

lemma fused_body_accepts:
  assumes "attr_fused_ops a = Some ops" "attr_num_args a = Some n"
  shows "(\<exists>k'. MklFusedConvOp_body pe a k = Inr k') =
         (in_chain ops \<and> num_args_ok ops n \<and>
          (''LeakyRelu'' \<in> set ops \<longrightarrow> attr_leakyrelu_alpha a \<noteq> None))"
  using assms
  by (auto simp: MklFusedConvOp_body_def seq_defs num_args_ok_def in_chain_def
        split: option.splits)

lemma fused_body_empty:
  assumes "attr_fused_ops a = Some []" "attr_num_args a = Some n"
  shows "MklFusedConvOp_body pe a k =
           Inl (InvalidArgument ''Fused Conv2D must have at least one fused op.'')"
  using assms by (simp add: MklFusedConvOp_body_def seq_defs)

lemma fused_body_not_implemented:
  assumes "attr_fused_ops a = Some ops" "attr_num_args a = Some n" "ops \<noteq> []" "\<not> in_chain ops"
  shows "MklFusedConvOp_body pe a k = Inl (fusion_not_implemented ops)"
  using assms by (simp add: MklFusedConvOp_body_def seq_defs in_chain_def)

lemma depthwise_body_accepts:
  assumes "attr_fused_ops a = Some ops" "attr_num_args a = Some n"
  shows "(\<exists>k'. MklFusedDepthwiseConvOp_body pe a k = Inr k') =
         (ops \<in> set depthwise_fusions \<and> n = 1)"
  using assms
  by (auto simp: MklFusedDepthwiseConvOp_body_def seq_defs depthwise_fusions_def)

lemma depthwise_body_empty:
  assumes "attr_fused_ops a = Some []" "attr_num_args a = Some n"
  shows "MklFusedDepthwiseConvOp_body pe a k =
           Inl (InvalidArgument ''Fused DepthwiseConv2D must have at least one fused op.'')"
  using assms by (simp add: MklFusedDepthwiseConvOp_body_def seq_defs)

lemma depthwise_body_not_implemented:
  assumes "attr_fused_ops a = Some ops" "attr_num_args a = Some n" "ops \<noteq> []"
    "ops \<notin> set depthwise_fusions"
  shows "MklFusedDepthwiseConvOp_body pe a k = Inl (fusion_not_implemented ops)"
  using assms by (simp add: MklFusedDepthwiseConvOp_body_def seq_defs depthwise_fusions_def)

text \<open>The whole fused constructors succeed exactly when the base constructor and the body
  do.\<close>

lemma fused_ctor_succeeds_iff:
  "(MklFusedConvOp_ctor lib pe a = Inr k') =
     (\<exists>k. MklConvOp_ctor lib False False a = Inr k \<and> MklFusedConvOp_body pe a k = Inr k')"
  "(MklFusedDepthwiseConvOp_ctor lib pe be a = Inr k') =
     (\<exists>k. MklConvOp_ctor lib be False a = Inr k \<and> MklFusedDepthwiseConvOp_body pe a k = Inr k')"
  by (auto simp: MklFusedConvOp_ctor_def MklFusedDepthwiseConvOp_ctor_def OP_REQUIRES_OK_def
        split: sum.splits)

text \<open>
  Claim C5, as the code has it. With \<^verbatim>\<open>fused_ops\<close> and \<^verbatim>\<open>num_args\<close> present, the fused
  convolution constructor accepts exactly the non-empty fusion sets of the specification's
  enumeration, written as a list in the order bias, residual add, activation (the
  activation one of \<^verbatim>\<open>Relu\<close>, \<^verbatim>\<open>Relu6\<close>, \<^verbatim>\<open>Elu\<close>, \<^verbatim>\<open>LeakyRelu\<close>), with the matching
  \<^verbatim>\<open>num_args\<close> and, for \<^verbatim>\<open>LeakyRelu\<close>, the attribute \<^verbatim>\<open>leakyrelu_alpha\<close>. It rejects the
  empty list with \<^verbatim>\<open>InvalidArgument\<close> and every list outside the enumeration with
  \<^verbatim>\<open>Unimplemented\<close>. The fused depthwise constructor accepts exactly bias alone and bias
  with \<^verbatim>\<open>Relu\<close>, \<^verbatim>\<open>Relu6\<close> or \<^verbatim>\<open>Elu\<close>, with \<^verbatim>\<open>num_args = 1\<close>, and rejects likewise.
\<close>

theorem fusion_policy:
  assumes "attr_fused_ops a = Some ops" and "attr_num_args a = Some n"
  shows
    "((\<exists>k'. MklFusedConvOp_body pe a k = Inr k') =
        (ops \<noteq> [] \<and> map kind_of ops \<in> set (map (map Some) spec_legal_fusions) \<and>
         num_args_ok ops n \<and>
         (''LeakyRelu'' \<in> set ops \<longrightarrow> attr_leakyrelu_alpha a \<noteq> None))) \<and>
     (ops = [] \<longrightarrow>
        MklFusedConvOp_body pe a k =
          Inl (InvalidArgument ''Fused Conv2D must have at least one fused op.'')) \<and>
     (ops \<noteq> [] \<and> map kind_of ops \<notin> set (map (map Some) spec_legal_fusions) \<longrightarrow>
        MklFusedConvOp_body pe a k = Inl (fusion_not_implemented ops)) \<and>
     ((\<exists>k'. MklFusedDepthwiseConvOp_body pe a k = Inr k') =
        (ops \<in> set depthwise_fusions \<and> n = 1)) \<and>
     (ops = [] \<longrightarrow>
        MklFusedDepthwiseConvOp_body pe a k =
          Inl (InvalidArgument ''Fused DepthwiseConv2D must have at least one fused op.'')) \<and>
     (ops \<noteq> [] \<and> ops \<notin> set depthwise_fusions \<longrightarrow>
        MklFusedDepthwiseConvOp_body pe a k = Inl (fusion_not_implemented ops))"
proof (intro conjI impI)
  show "(\<exists>k'. MklFusedConvOp_body pe a k = Inr k') =
        (ops \<noteq> [] \<and> map kind_of ops \<in> set (map (map Some) spec_legal_fusions) \<and>
         num_args_ok ops n \<and>
         (''LeakyRelu'' \<in> set ops \<longrightarrow> attr_leakyrelu_alpha a \<noteq> None))"
    using fused_body_accepts [OF assms, of pe k] in_chain_iff [of ops] by simp
next
  assume "ops = []"
  then show "MklFusedConvOp_body pe a k =
          Inl (InvalidArgument ''Fused Conv2D must have at least one fused op.'')"
    using fused_body_empty assms by blast
next
  assume "ops \<noteq> [] \<and> map kind_of ops \<notin> set (map (map Some) spec_legal_fusions)"
  then show "MklFusedConvOp_body pe a k = Inl (fusion_not_implemented ops)"
    using fused_body_not_implemented [OF assms, of pe k] in_chain_iff [of ops] by simp
next
  show "(\<exists>k'. MklFusedDepthwiseConvOp_body pe a k = Inr k') =
        (ops \<in> set depthwise_fusions \<and> n = 1)"
    by (rule depthwise_body_accepts [OF assms])
next
  assume "ops = []"
  then show "MklFusedDepthwiseConvOp_body pe a k =
          Inl (InvalidArgument ''Fused DepthwiseConv2D must have at least one fused op.'')"
    using depthwise_body_empty assms by blast
next
  assume "ops \<noteq> [] \<and> ops \<notin> set depthwise_fusions"
  then show "MklFusedDepthwiseConvOp_body pe a k = Inl (fusion_not_implemented ops)"
    using depthwise_body_not_implemented [OF assms, of pe k] by simp
qed

text \<open>Bias, residual add and \<^verbatim>\<open>Relu\<close> with two extra operands: accepted by the fused
  convolution constructor, not by the depthwise one.\<close>

theorem fusion_policy_witness:
  "(\<exists>k'. MklFusedConvOp_body False fused_attrs_bias_add_relu example_kernel = Inr k') \<and>
   \<not> (\<exists>k'. MklFusedDepthwiseConvOp_body False fused_attrs_bias_add_relu example_kernel = Inr k')"
  using fusion_policy [of fused_attrs_bias_add_relu "[''BiasAdd'', ''Add'', ''Relu'']" 2 False
      example_kernel]
  by (simp add: fused_attrs_bias_add_relu_def conv_attrs_valid_def no_attrs_def
        spec_legal_fusions_def kind_of_def activation_names_def num_args_ok_def
        depthwise_fusions_def)

text \<open>
  Claim C5 as stated fails: the empty set and the lone activation are in the enumeration,
  but the fused convolution constructor rejects the empty list, with \<^verbatim>\<open>InvalidArgument\<close>,
  and the depthwise constructor rejects \<^verbatim>\<open>[Relu]\<close>.
\<close>

theorem fusion_policy_counterexample:
  "map kind_of [] \<in> set (map (map Some) spec_legal_fusions) \<and>
   MklFusedConvOp_body False fused_attrs_empty example_kernel =
     Inl (InvalidArgument ''Fused Conv2D must have at least one fused op.'') \<and>
   map kind_of [''Relu''] \<in> set (map (map Some) spec_legal_fusions) \<and>
   MklFusedDepthwiseConvOp_body False fused_attrs_relu example_kernel =
     Inl (fusion_not_implemented [''Relu''])"
  by (simp add: fused_attrs_empty_def fused_attrs_relu_def conv_attrs_valid_def no_attrs_def
        spec_legal_fusions_def kind_of_def activation_names_def
        MklFusedConvOp_body_def MklFusedDepthwiseConvOp_body_def seq_defs)

subsection \<open>\<^verbatim>\<open>Execute\<close> and the data handles\<close>

lemma Execute_returns_unbound:
  "slots_unbound ctx \<Longrightarrow> fst (Execute exec s f b d ctx) = Returns () \<Longrightarrow>
   slots_unbound (snd (Execute exec s f b d ctx))"
  by (auto simp: Execute_def Let_def slots_unbound_def split: option.splits if_splits)

text \<open>
  Claim C6, as the code has it. When \<^verbatim>\<open>Execute\<close> returns, the source, filter and
  destination handles are \<^verbatim>\<open>DummyData\<close>, and so is the bias handle when a bias buffer was
  passed (it is left as it was otherwise). When the backend throws, the exception leaves
  \<^verbatim>\<open>Execute\<close> before the reset: the handles still hold the caller's buffers.
\<close>

theorem Execute_resets_on_return_only:
  "(fst (Execute exec s f b d ctx) = Returns () \<longrightarrow>
      src_mem (snd (Execute exec s f b d ctx)) = DummyData \<and>
      filter_mem (snd (Execute exec s f b d ctx)) = DummyData \<and>
      dst_mem (snd (Execute exec s f b d ctx)) = DummyData \<and>
      bias_mem (snd (Execute exec s f b d ctx)) =
        (if b \<noteq> None then Some DummyData else bias_mem ctx)) \<and>
   (fst (Execute exec s f b d ctx) = Throws e \<longrightarrow>
      src_mem (snd (Execute exec s f b d ctx)) = Bound s \<and>
      filter_mem (snd (Execute exec s f b d ctx)) = Bound f \<and>
      dst_mem (snd (Execute exec s f b d ctx)) = Bound d \<and>
      bias_mem (snd (Execute exec s f b d ctx)) =
        (if b \<noteq> None then Some (Bound (the b)) else bias_mem ctx))"
  by (auto simp: Execute_def Let_def split: option.splits)

text \<open>An execution that returns, on a primitive without bias: every handle is
  \<^verbatim>\<open>DummyData\<close> afterwards.\<close>

theorem Execute_resets_on_return_only_witness:
  "fst (Execute execute_returns SrcTensorData FilterTensorData None DstTensorData
          example_context) = Returns () \<and>
   src_mem (snd (Execute execute_returns SrcTensorData FilterTensorData None DstTensorData
          example_context)) = DummyData \<and>
   filter_mem (snd (Execute execute_returns SrcTensorData FilterTensorData None DstTensorData
          example_context)) = DummyData \<and>
   dst_mem (snd (Execute execute_returns SrcTensorData FilterTensorData None DstTensorData
          example_context)) = DummyData"
proof -
  have r: "fst (Execute execute_returns SrcTensorData FilterTensorData None DstTensorData
          example_context) = Returns ()"
    by (simp add: Execute_def example_context_def execute_returns_def)
  from r Execute_resets_on_return_only [of execute_returns SrcTensorData FilterTensorData None
      DstTensorData example_context backend_error]
  show ?thesis by simp
qed

text \<open>
  Claim C6 as stated fails on the path where the backend throws: the source handle still
  holds the caller's buffer when the exception leaves \<^verbatim>\<open>Execute\<close>.
\<close>

theorem Execute_throw_keeps_handles_counterexample:
  "fst (Execute execute_throws SrcTensorData FilterTensorData None DstTensorData
          example_context) = Throws backend_error \<and>
   src_mem (snd (Execute execute_throws SrcTensorData FilterTensorData None DstTensorData
          example_context)) = Bound SrcTensorData \<and>
   \<not> slots_unbound (snd (Execute execute_throws SrcTensorData FilterTensorData None
          DstTensorData example_context))"
  by (simp add: Execute_def example_context_def execute_throws_def slots_unbound_def)

subsection \<open>The filter cache\<close>

lemma CacheFilter_nonempty:
  "\<not> IsFilterCacheEmpty st \<Longrightarrow> CacheFilter r wd f fmd st = (Returns (), st)"
  by (simp add: CacheFilter_def IsFilterCacheEmpty_def)

lemma GetCachedFilter_mismatch:
  "cached_filter_md (cache st) = Some m \<Longrightarrow> wd \<noteq> m \<Longrightarrow> GetCachedFilter wd st = Returns None"
  by (simp add: GetCachedFilter_def)

lemma filter_section_keeps_nonempty_cache:
  "\<not> IsFilterCacheEmpty st \<Longrightarrow> cache (snd (filter_section env k wd fmd f st)) = cache st"
  by (auto simp: filter_section_def then_do_def CacheFilter_nonempty GetCachedFilter_def emit_def
        split: option.splits sum.splits)

text \<open>
  Claim C4. The cache holds a filter (its tensor has elements) stored with the descriptor
  \<open>m\<close>, and a call with a constant filter asks for a different descriptor \<open>wd\<close>. Then
  \<^verbatim>\<open>GetCachedFilter\<close> returns a null pointer, not the cached buffer; the filter section of
  \<^verbatim>\<open>Compute\<close> reorders the filter for this call only (or passes the backend's exception
  on); the cache is as before; and \<^verbatim>\<open>CacheFilter\<close>, whatever it is called with, leaves a
  filled cache alone, so no second writer overwrites it.
\<close>

theorem mismatched_descriptor_falls_back:
  assumes "\<not> IsFilterCacheEmpty st"
    and "cached_filter_md (cache st) = Some m"
    and "wd \<noteq> m"
    and "m_is_filter_const k"
    and "fmd \<noteq> wd"
  shows "GetCachedFilter wd st = Returns None \<and>
         filter_section env k wd fmd f st =
           (case reorder env fmd wd f of
              Inl e \<Rightarrow> (Throws e, st)
            | Inr op_mem \<Rightarrow> (Returns FilterOpMem, emit (EvFilterReorder wd) st)) \<and>
         cache (snd (filter_section env k wd fmd f st)) = cache st \<and>
         CacheFilter r wd' f' fmd' st = (Returns (), st)"
  using assms
  by (auto simp: filter_section_def then_do_def CacheFilter_nonempty GetCachedFilter_def emit_def
        split: sum.splits)

text \<open>
  A cache filled for weight format 1 and a request for weight format 2.
\<close>

theorem mismatched_descriptor_falls_back_witness:
  "GetCachedFilter 2 cached_state = Returns None \<and>
   filter_section example_env const_filter_kernel 2 0 [1, 2, 3, 4, 5, 6, 7, 8, 9] cached_state =
     (Returns FilterOpMem, emit (EvFilterReorder 2) cached_state) \<and>
   cache (snd (filter_section example_env const_filter_kernel 2 0 [1, 2, 3, 4, 5, 6, 7, 8, 9]
      cached_state)) = cache cached_state"
proof -
  have a: "\<not> IsFilterCacheEmpty cached_state"
    by (simp add: IsFilterCacheEmpty_def cached_state_def)
  have b: "cached_filter_md (cache cached_state) = Some 1"
    by (simp add: cached_state_def)
  have c: "m_is_filter_const const_filter_kernel"
    by (simp add: const_filter_kernel_def)
  have d: "reorder example_env 0 2 [1, 2, 3, 4, 5, 6, 7, 8, 9] = Inr [9, 8, 7, 6, 5, 4, 3, 2, 1]"
    by (simp add: example_env_def)
  from mismatched_descriptor_falls_back [OF a b _ c, where wd = 2 and fmd = 0 and env = example_env
      and f = "[1, 2, 3, 4, 5, 6, 7, 8, 9]" and r = "reorder example_env" and wd' = 2
      and f' = "[]" and fmd' = 0]
  show ?thesis by (simp add: d emit_def)
qed

lemma call_sizes_no_paddings:
  "\<not> m_fuse_pad k \<Longrightarrow> m_padding_list k = [] \<Longrightarrow>
   call_sizes env k inp = Inr (GetConvFwdSizesInMklOrder inp [] [] False)"
  by (simp add: call_sizes_def pad_attr_enabled_of_def)

lemma call_sizes_example:
  "call_sizes example_env const_filter_kernel example_inputs = 
   Inr (GetConvFwdSizesInMklOrder example_inputs [] [] False)"
  by (rule call_sizes_no_paddings) (simp_all add: const_filter_kernel_def example_kernel_def)

lemma passes_checks_example:
  "passes_checks example_env const_filter_kernel example_targs example_inputs example_sizes"
  by (simp add: passes_checks_def call_sizes_example)
     (simp add: example_env_def const_filter_kernel_def example_kernel_def
        example_targs_def example_inputs_def example_sizes_def nothing_to_compute_def
        num_elements_def vector_index_def conv_tf_format_def)

subsection \<open>Nothing to compute\<close>


text \<open>
  With the paddings of the example in the source's comment, top 1, bottom 2, left 3 and
  right 4, \<^verbatim>\<open>PadWithConvFusion\<close> gives the vectors (top, left) and (bottom, right) in both
  formats. But the reads of the paddings are not checked against the length of the list.
  The constructor accepts a list of explicit paddings with one value; every call of the
  kernel it leaves then reads the list at index 2, past its end, before the sizes are
  computed, whatever the inputs.
\<close>

lemma PadWithConvFusion_example:
  "PadWithConvFusion example_env padded_nhwc_kernel inp True = Inr (OK, [1, 3], [2, 4])"
  "PadWithConvFusion example_env padded_nchw_kernel inp True = Inr (OK, [1, 3], [2, 4])"
  by (simp_all add: PadWithConvFusion_def padded_nhwc_kernel_def padded_nchw_kernel_def
        example_kernel_def example_env_def vector_index_def to_int_def)

lemma short_padding_list_accepted:
  "MklConvOp_ctor example_lib False False conv_attrs_short_paddings = Inr short_padding_kernel"
  by (simp add: MklConvOp_ctor_def seq_defs check_dilations_def conv_attrs_short_paddings_def
        conv_attrs_valid_def no_attrs_def example_lib_def dim_index_def spatial_number_def
        short_padding_kernel_def example_kernel_def)

lemma short_padding_list_faults:
  "MklConvOp_Compute example_env short_padding_kernel targs inp st =
     (Faults (OutOfBoundsRead 2 1), st)"
  by (simp add: MklConvOp_Compute_def MklConvOp_Compute_try_def call_sizes_def
        pad_attr_enabled_of_def PadWithConvFusion_def short_padding_kernel_def
        example_kernel_def example_env_def vector_index_def)


lemma mm_emit_fields [simp]:
  "mm_factory (mm_emit ev st) = mm_factory st"
  "mm_status (mm_emit ev st) = mm_status st"
  "mm_weight_cache (mm_emit ev st) = mm_weight_cache st"
  "mm_log (mm_emit ev st) = mm_log st @ [ev]"
  by (simp_all add: mm_emit_def)

lemma matmul_Compute_past_checks:
  assumes "matmul_valid k inp"
    and "ExtendMklDnnMatMulFwdParams k (matmul_params k inp) st = (params, st0)"
  shows "MklFusedMatMulOp_Compute env k inp st =
     (case GetOrCreate (mm_build env) params (mm_factory st0) of
         (Throws e, f) \<Rightarrow> (Throws e, (mm_emit (EvFactoryGet params) st0)\<lparr>mm_factory := f\<rparr>)
       | (Faults x, f) \<Rightarrow> (Faults x, (mm_emit (EvFactoryGet params) st0)\<lparr>mm_factory := f\<rparr>)
       | (Returns matmul_prim, f) \<Rightarrow>
           (if mm_batch inp = 0 \<or> mm_channel k inp = 0 then
              (Returns (),
               mm_emit (EvAllocateOutput 0 (mm_dst_shape env k inp params))
                 ((mm_emit (EvFactoryGet params) st0)\<lparr>mm_factory := f\<rparr>))
            else
              (case MklFusedMatMulOp_Compute_try env k inp params (mm_dst_shape env k inp params)
                      (mm_emit (EvAllocateOutput 0 (mm_dst_shape env k inp params))
                         ((mm_emit (EvFactoryGet params) st0)\<lparr>mm_factory := f\<rparr>)) of
                 (Throws e, st4) \<Rightarrow> OP_FAILS (Aborted e) st4
               | r \<Rightarrow> r)))"
proof (cases "GetOrCreate (mm_build env) params (mm_factory st0)")
  case (Pair r f)
  then show ?thesis
    using assms
    by (cases r) (simp_all add: MklFusedMatMulOp_Compute_def matmul_valid_def Let_def)
qed



lemma matmul_valid_example: "matmul_valid example_matmul_kernel example_matmul_inputs"
  by (simp add: matmul_valid_def example_matmul_kernel_def example_matmul_inputs_def IsMatrix_def
        IsVector_def mm_src_tf_shape_def mm_k_def mm_channel_def to_int_def)

lemma Extend_example:
  "ExtendMklDnnMatMulFwdParams example_matmul_kernel p st = (p, st)"
  by (simp add: ExtendMklDnnMatMulFwdParams_def example_matmul_kernel_def)



subsection \<open>One primitive per call of the convolution kernel\<close>

lemma count_events_append [simp]:
  "count_events P (xs @ ys) = count_events P xs + count_events P ys"
  by (simp add: count_events_def)

lemma then_do_keeps:
  assumes "Q (snd r)" and "\<And>v s. Q s \<Longrightarrow> Q (snd (rest v s))"
  shows "Q (snd (then_do r rest))"
  using assms by (cases r) (auto simp: then_do_def split: outcome.splits)

lemma AllocateOutputTensor_setups:
  "count_events is_setup (log (snd (AllocateOutputTensor env k inp dims c2d st))) =
   count_events is_setup (log st)"
  by (auto simp: AllocateOutputTensor_def emit_def count_events_def is_setup_def Let_def
        split: sum.splits option.splits)

lemma CacheFilter_setups:
  "count_events is_setup (log (snd (CacheFilter r wd f fmd st))) = count_events is_setup (log st)"
  by (auto simp: CacheFilter_def emit_def count_events_def is_setup_def split: sum.splits)

lemma filter_section_setups:
  "count_events is_setup (log (snd (filter_section env k wd fmd f st))) =
   count_events is_setup (log st)"
  by (auto simp: filter_section_def then_do_def CacheFilter_def GetCachedFilter_def emit_def
        count_events_def is_setup_def split: sum.splits option.splits)

lemma execute_section_setups:
  "count_events is_setup (log (snd (execute_section env k p c fd st))) =
   count_events is_setup (log st)"
  by (simp add: execute_section_def Let_def emit_def count_events_def is_setup_def)

lemma Compute_try_reaches_setup:
  assumes "passes_checks env k targs inp sz"
  shows "MklConvOp_Compute_try env k targs inp st =
    then_do (MklConvFwdPrimitive_new env (conv_descriptor env k targs inp sz) st) (\<lambda>conv_fwd st1.
    then_do (AllocateOutputTensor env k inp (sz_dst_dims_mkl_order sz)
        (length (m_strides k) = 4) st1) (\<lambda>_ st2.
    then_do (filter_section env k (fwd_pd_weights_desc conv_fwd)
               (memory_desc env (sz_filter_dims sz)
                  (if length (m_strides k) = 4 then (if t_is_depthwise targs then hwigo else hwio)
                   else dhwio))
               (filter_tensor inp) st2) (\<lambda>filter_data st3.
    then_do (execute_section env k (conv_descriptor env k targs inp sz) conv_fwd filter_data st3)
      (\<lambda>_ st4. (Returns OK, emit (EvDelete (conv_descriptor env k targs inp sz)) st4)))))"
  using assms
  by (auto simp: passes_checks_def MklConvOp_Compute_try_def conv_descriptor_def
        conv_tf_format_def Let_def)

lemma Compute_snd:
  "snd (MklConvOp_Compute env k targs inp st) = snd (MklConvOp_Compute_try env k targs inp st)"
  by (auto simp: MklConvOp_Compute_def split: prod.splits outcome.splits)

text \<open>
  Claim C1, at the convolution kernel. The comment in \<^verbatim>\<open>Compute\<close> says that the primitive
  comes from a pool, but the code constructs a new \<^verbatim>\<open>MklConvFwdPrimitive\<close> and deletes it at
  the end of the call. So every call that passes the checks (with the sizes \<open>sz\<close> that
  the helper gives for it) and whose descriptor the backend accepts runs \<^verbatim>\<open>Setup\<close> once more: the number of builds is the number of such
  calls, not one.
\<close>

theorem conv_compute_builds_on_every_call:
  assumes "passes_checks env k targs inp sz"
    and "primitive_desc env (conv_descriptor env k targs inp sz) = Inr wd"
  shows "count_events is_setup (log (snd (MklConvOp_Compute env k targs inp st))) =
         count_events is_setup (log (st :: ('tf MklConvFwdParams, 'e, 'md) kernel_state)) + 1"
proof -
  let ?Q = "\<lambda>s :: ('tf MklConvFwdParams, 'e, 'md) kernel_state.
              count_events is_setup (log s) = count_events is_setup (log st) + 1"
  have new: "?Q (snd (MklConvFwdPrimitive_new env (conv_descriptor env k targs inp sz) st))"
    using assms(2)
    by (simp add: MklConvFwdPrimitive_new_def emit_def count_events_def is_setup_def)
  have "?Q (snd (MklConvOp_Compute_try env k targs inp st))"
    unfolding Compute_try_reaches_setup [OF assms(1)]
  proof (rule then_do_keeps [where Q = ?Q, OF new])
    fix conv_fwd s1
    assume q1: "?Q s1"
    have a: "?Q (snd (AllocateOutputTensor env k inp (sz_dst_dims_mkl_order sz)
        (length (m_strides k) = 4) s1))"
      using q1 by (simp add: AllocateOutputTensor_setups)
    show "?Q (snd (then_do (AllocateOutputTensor env k inp (sz_dst_dims_mkl_order sz)
        (length (m_strides k) = 4) s1) (\<lambda>_ st2.
      then_do (filter_section env k (fwd_pd_weights_desc conv_fwd)
               (memory_desc env (sz_filter_dims sz)
                  (if length (m_strides k) = 4 then (if t_is_depthwise targs then hwigo else hwio)
                   else dhwio))
               (filter_tensor inp) st2) (\<lambda>filter_data st3.
      then_do (execute_section env k (conv_descriptor env k targs inp sz) conv_fwd filter_data st3)
        (\<lambda>_ st4. (Returns OK, emit (EvDelete (conv_descriptor env k targs inp sz)) st4))))))"
    proof (rule then_do_keeps [where Q = ?Q, OF a])
      fix u s2
      assume q2: "?Q s2"
      show "?Q (snd (then_do (filter_section env k (fwd_pd_weights_desc conv_fwd)
               (memory_desc env (sz_filter_dims sz)
                  (if length (m_strides k) = 4 then (if t_is_depthwise targs then hwigo else hwio)
                   else dhwio))
               (filter_tensor inp) s2) (\<lambda>filter_data st3.
        then_do (execute_section env k (conv_descriptor env k targs inp sz) conv_fwd filter_data st3)
          (\<lambda>_ st4. (Returns OK, emit (EvDelete (conv_descriptor env k targs inp sz)) st4)))))"
      proof (rule then_do_keeps [where Q = ?Q])
        show "?Q (snd (filter_section env k (fwd_pd_weights_desc conv_fwd)
               (memory_desc env (sz_filter_dims sz)
                  (if length (m_strides k) = 4 then (if t_is_depthwise targs then hwigo else hwio)
                   else dhwio))
               (filter_tensor inp) s2))"
          using q2 by (simp add: filter_section_setups)
      next
        fix filter_data s3
        assume q3: "?Q s3"
        show "?Q (snd (then_do
            (execute_section env k (conv_descriptor env k targs inp sz) conv_fwd filter_data s3)
            (\<lambda>_ st4. (Returns OK, emit (EvDelete (conv_descriptor env k targs inp sz)) st4))))"
        proof (rule then_do_keeps [where Q = ?Q])
          show "?Q (snd (execute_section env k (conv_descriptor env k targs inp sz) conv_fwd
                  filter_data s3))"
            using q3 by (simp add: execute_section_setups)
        next
          fix u4 s4
          assume "?Q s4"
          then show "?Q (snd (Returns OK, emit (EvDelete (conv_descriptor env k targs inp sz)) s4))"
            by (simp add: emit_def count_events_def is_setup_def)
        qed
      qed
    qed
  qed
  then show ?thesis by (simp add: Compute_snd)
qed

text \<open>
  Two calls with the same shapes, on the same kernel: the same descriptor is built twice.
\<close>

theorem conv_compute_builds_on_every_call_witness:
  "count_events is_setup (log (snd (MklConvOp_Compute example_env const_filter_kernel
      example_targs example_inputs
      (snd (MklConvOp_Compute example_env const_filter_kernel example_targs example_inputs
         initial_state))))) = 2"
proof -
  have pd: "primitive_desc example_env
      (conv_descriptor example_env const_filter_kernel example_targs example_inputs
         example_sizes) = Inr 1"
    by (simp add: example_env_def)
  have i: "count_events is_setup (log initial_state) = 0"
    by (simp add: initial_state_def count_events_def)
  from conv_compute_builds_on_every_call [OF passes_checks_example pd, of initial_state]
       conv_compute_builds_on_every_call [OF passes_checks_example pd,
         of "snd (MklConvOp_Compute example_env const_filter_kernel example_targs example_inputs
               initial_state)"]
       i
  show ?thesis by simp
qed

subsection \<open>Exceptions\<close>

lemma conv_Compute_never_throws:
  "fst (MklConvOp_Compute env k targs inp st) \<noteq> Throws e"
  by (auto simp: MklConvOp_Compute_def split: prod.splits outcome.splits)

lemma conv_Compute_aborts:
  "MklConvOp_Compute_try env k targs inp st = (Throws e, st') \<Longrightarrow>
   MklConvOp_Compute env k targs inp st = (Returns (Aborted e), st')"
  by (simp add: MklConvOp_Compute_def)

lemma Extend_factory:
  "mm_factory (snd (ExtendMklDnnMatMulFwdParams k p st)) = mm_factory st"
  by (auto simp: ExtendMklDnnMatMulFwdParams_def SetStatus_def Let_def)

text \<open>
  Claim C8, at the fused matmul kernel. The \<^verbatim>\<open>try\<close> block of \<^verbatim>\<open>MklFusedMatMulOp::Compute\<close>
  begins after the primitive has been fetched from the factory. When the inputs pass the
  checks, the factory has no primitive for the descriptor and the backend rejects the
  build, the exception leaves \<^verbatim>\<open>Compute\<close>: it is not turned into a status. (The
  convolution kernel, whose \<^verbatim>\<open>try\<close> block is the whole body, never lets one escape:
  \<open>conv_Compute_never_throws\<close>.)
\<close>

theorem matmul_build_exception_escapes:
  assumes "matmul_valid k inp"
    and "ExtendMklDnnMatMulFwdParams k (matmul_params k inp) st = (params, st0)"
    and "map_of (pool (mm_factory st)) params = None"
    and "mm_build env params = Some e"
  shows "MklFusedMatMulOp_Compute env k inp st = (Throws e, mm_emit (EvFactoryGet params) st0)"
proof -
  have f: "mm_factory st0 = mm_factory st"
    using Extend_factory [of k "matmul_params k inp" st] assms(2) by simp
  have "GetOrCreate (mm_build env) params (mm_factory st0) = (Throws e, mm_factory st0)"
    using assms(3,4) by (simp add: GetOrCreate_def f)
  then show ?thesis
    by (simp add: matmul_Compute_past_checks [OF assms(1,2)])
qed

text \<open>
  The first call of a fused matmul kernel on a backend that rejects the primitive: the
  exception escapes and the status is still \<^verbatim>\<open>OK\<close>.
\<close>

theorem matmul_build_exception_escapes_witness:
  "fst (MklFusedMatMulOp_Compute rejecting_matmul_env example_matmul_kernel example_matmul_inputs
     initial_matmul_state) = Throws backend_error \<and>
   mm_status (snd (MklFusedMatMulOp_Compute rejecting_matmul_env example_matmul_kernel
     example_matmul_inputs initial_matmul_state)) = OK"
proof -
  have a: "map_of (pool (mm_factory initial_matmul_state))
             (matmul_params example_matmul_kernel example_matmul_inputs) = None"
    by (simp add: initial_matmul_state_def empty_factory_def)
  have b: "mm_build rejecting_matmul_env (matmul_params example_matmul_kernel example_matmul_inputs)
             = Some backend_error"
    by (simp add: rejecting_matmul_env_def)
  from matmul_build_exception_escapes [OF matmul_valid_example Extend_example a b]
  show ?thesis by (simp add: initial_matmul_state_def)
qed

subsection \<open>The scan of the destination buffer\<close>

lemma read_dst_fields [simp]:
  "mm_log (read_dst js st) = mm_log st @ map EvReadDst js"
  "mm_status (read_dst js st) = mm_status st"
  "mm_factory (read_dst js st) = mm_factory st"
  "mm_weight_cache (read_dst js st) = mm_weight_cache st"
  by (induction js arbitrary: st) simp_all










subsection \<open>Concurrent first use of the filter cache\<close>

lemma list_all_update:
  "list_all P xs \<Longrightarrow> P x \<Longrightarrow> list_all P (xs[i := x])"
  using set_update_subset_insert [of xs i x] by (auto simp: list_all_iff)

lemma list_all_mono':
  "list_all P xs \<Longrightarrow> (\<And>x. P x \<Longrightarrow> Q x) \<Longrightarrow> list_all Q xs"
  by (auto simp: list_all_iff)

text \<open>The thread program is the filter section of \<^verbatim>\<open>Compute\<close> for a constant filter, cut
  at its three locked calls: four steps of a single thread give its result.\<close>

lemma filter_section_is_one_thread:
  assumes "m_is_filter_const k" and "fmd \<noteq> wd"
  shows "run_threads (reorder env) wd fmd f [0, 0, 0, 0] ([AtIsFilterCacheEmpty], st) =
           (case filter_section env k wd fmd f st of
              (Returns b, st') \<Rightarrow> ([Done b], st')
            | (Throws e, st') \<Rightarrow> ([Stopped], st')
            | (Faults x, st') \<Rightarrow> ([Stopped], st'))"
  using assms
  by (auto simp: filter_section_def then_do_def thread_step_def CacheFilter_def
        GetCachedFilter_def IsFilterCacheEmpty_def emit_def
        split: sum.splits option.splits)

lemma thread_step_inv:
  assumes conv: "reorder_fn filter_md weights_desc filter_values = Inr op_mem"
    and ne: "op_mem \<noteq> []"
    and inv: "threads_inv weights_desc op_mem st0 n pcs st"
    and i: "i < length pcs"
    and step: "thread_step reorder_fn weights_desc filter_md filter_values (pcs ! i) st = (pc', st')"
  shows "threads_inv weights_desc op_mem st0 n (pcs[i := pc']) st'"
proof (cases "IsFilterCacheEmpty st")
  case True
  with inv have l: "log st = log st0" "cache st = cache st0"
    and a: "list_all (\<lambda>pc. pc = AtIsFilterCacheEmpty \<or> pc = AtCacheFilter) pcs"
    and n: "length pcs = n"
    by (simp_all add: threads_inv_def)
  from a i have "pcs ! i = AtIsFilterCacheEmpty \<or> pcs ! i = AtCacheFilter"
    by (simp add: list_all_length)
  then show ?thesis
  proof
    assume "pcs ! i = AtIsFilterCacheEmpty"
    with step True have "pc' = AtCacheFilter" "st' = st"
      by (simp_all add: thread_step_def)
    with True l a n show ?thesis
      by (simp add: threads_inv_def list_all_update)
  next
    assume "pcs ! i = AtCacheFilter"
    with step True conv have p: "pc' = AtGetCachedFilter"
      and s: "st' = (emit (EvCacheFilterReorder weights_desc) st)
                \<lparr>cache := \<lparr> cached_filter_data = op_mem, cached_filter_md = Some weights_desc \<rparr>\<rparr>"
      by (auto simp: thread_step_def CacheFilter_def IsFilterCacheEmpty_def)
    have "list_all (\<lambda>pc. pc = AtIsFilterCacheEmpty \<or> pc = AtCacheFilter \<or>
                        pc = AtGetCachedFilter \<or> pc = Done CachedFilterData) pcs"
      by (rule list_all_mono' [OF a]) auto
    then show ?thesis
      using ne l n
      by (simp add: threads_inv_def p s IsFilterCacheEmpty_def emit_def list_all_update)
  qed
next
  case False
  with inv have l: "log st = log st0 @ [EvCacheFilterReorder weights_desc]"
    and c: "cache st = \<lparr> cached_filter_data = op_mem, cached_filter_md = Some weights_desc \<rparr>"
    and a: "list_all (\<lambda>pc. pc = AtIsFilterCacheEmpty \<or> pc = AtCacheFilter \<or>
                        pc = AtGetCachedFilter \<or> pc = Done CachedFilterData) pcs"
    and n: "length pcs = n"
    by (simp_all add: threads_inv_def)
  from a i have "pcs ! i = AtIsFilterCacheEmpty \<or> pcs ! i = AtCacheFilter \<or>
                 pcs ! i = AtGetCachedFilter \<or> pcs ! i = Done CachedFilterData"
    by (simp add: list_all_length)
  with step False c have "st' = st \<and> (pc' = AtGetCachedFilter \<or> pc' = Done CachedFilterData)"
    by (auto simp: thread_step_def CacheFilter_def GetCachedFilter_def IsFilterCacheEmpty_def)
  with False l c a n show ?thesis
    by (auto simp: threads_inv_def list_all_update)
qed

text \<open>No thread is ever stuck: as long as it is not done, its next step takes it further,
  and never to a stop.\<close>

lemma thread_step_progress:
  assumes "reorder_fn filter_md weights_desc filter_values = Inr op_mem"
    and "op_mem \<noteq> []"
    and "threads_inv weights_desc op_mem st0 n pcs st"
    and "i < length pcs"
    and "\<not> is_Done (pcs ! i)"
  shows "pc_rank (pcs ! i) <
           pc_rank (fst (thread_step reorder_fn weights_desc filter_md filter_values (pcs ! i) st)) \<and>
         fst (thread_step reorder_fn weights_desc filter_md filter_values (pcs ! i) st) \<noteq> Stopped"
proof (cases "IsFilterCacheEmpty st")
  case True
  with assms(3,4) have "pcs ! i = AtIsFilterCacheEmpty \<or> pcs ! i = AtCacheFilter"
    by (simp add: threads_inv_def list_all_length)
  with True assms(1) show ?thesis
    by (auto simp: thread_step_def CacheFilter_def IsFilterCacheEmpty_def pc_rank_def)
next
  case False
  with assms(3,4) have "pcs ! i = AtIsFilterCacheEmpty \<or> pcs ! i = AtCacheFilter \<or>
                 pcs ! i = AtGetCachedFilter \<or> pcs ! i = Done CachedFilterData"
    and "cache st = \<lparr> cached_filter_data = op_mem, cached_filter_md = Some weights_desc \<rparr>"
    by (simp_all add: threads_inv_def list_all_length)
  with False assms(5) show ?thesis
    by (auto simp: thread_step_def CacheFilter_def GetCachedFilter_def IsFilterCacheEmpty_def
          pc_rank_def is_Done_def)
qed

lemma run_threads_inv:
  assumes conv: "reorder_fn filter_md weights_desc filter_values = Inr op_mem"
    and ne: "op_mem \<noteq> []"
  shows "threads_inv weights_desc op_mem st0 n pcs st \<Longrightarrow>
         run_threads reorder_fn weights_desc filter_md filter_values sched (pcs, st) = (pcs', st') \<Longrightarrow>
         threads_inv weights_desc op_mem st0 n pcs' st'"
proof (induction sched arbitrary: pcs st)
  case Nil
  then show ?case by simp
next
  case (Cons i sched)
  show ?case
  proof (cases "i < length pcs")
    case True
    obtain pc1 st1 where
      s: "thread_step reorder_fn weights_desc filter_md filter_values (pcs ! i) st = (pc1, st1)"
      by (cases "thread_step reorder_fn weights_desc filter_md filter_values (pcs ! i) st")
    have "threads_inv weights_desc op_mem st0 n (pcs[i := pc1]) st1"
      by (rule thread_step_inv [OF conv ne Cons.prems(1) True s])
    moreover have "run_threads reorder_fn weights_desc filter_md filter_values sched
                     (pcs[i := pc1], st1) = (pcs', st')"
      using Cons.prems(2) True s by simp
    ultimately show ?thesis by (rule Cons.IH)
  next
    case False
    with Cons show ?thesis by simp
  qed
qed

text \<open>A thread that is at a point the invariant allows and has come as far as rank 3 is
  done, with the cached buffer.\<close>

lemma threads_inv_rank:
  assumes "threads_inv weights_desc op_mem st0 n pcs st"
    and "j < n" and "3 \<le> pc_rank (pcs ! j)"
  shows "pcs ! j = Done CachedFilterData"
proof -
  from assms(1,2) have "pcs ! j = AtIsFilterCacheEmpty \<or> pcs ! j = AtCacheFilter \<or>
                 pcs ! j = AtGetCachedFilter \<or> pcs ! j = Done CachedFilterData"
    by (cases "IsFilterCacheEmpty st") (auto simp: threads_inv_def list_all_length)
  with assms(3) show ?thesis by (auto simp: pc_rank_def)
qed

text \<open>A thread that the schedule names often enough gets done: each of its steps takes
  it further, whatever the other threads do in between.\<close>

lemma run_threads_progress:
  assumes conv: "reorder_fn filter_md weights_desc filter_values = Inr op_mem"
    and ne: "op_mem \<noteq> []"
  shows "threads_inv weights_desc op_mem st0 n pcs st \<Longrightarrow> j < n \<Longrightarrow>
         3 \<le> pc_rank (pcs ! j) + count_list sched j \<Longrightarrow>
         fst (run_threads reorder_fn weights_desc filter_md filter_values sched (pcs, st)) ! j =
           Done CachedFilterData"
proof (induction sched arbitrary: pcs st)
  case Nil
  then show ?case using threads_inv_rank [of weights_desc op_mem st0 n pcs st j] by simp
next
  case (Cons i sched)
  from Cons.prems(1) have len: "length pcs = n" by (simp add: threads_inv_def)
  show ?case
  proof (cases "i < length pcs")
    case True
    obtain pc1 st1 where
      s: "thread_step reorder_fn weights_desc filter_md filter_values (pcs ! i) st = (pc1, st1)"
      by (cases "thread_step reorder_fn weights_desc filter_md filter_values (pcs ! i) st")
    have inv1: "threads_inv weights_desc op_mem st0 n (pcs[i := pc1]) st1"
      by (rule thread_step_inv [OF conv ne Cons.prems(1) True s])
    have rank: "3 \<le> pc_rank ((pcs[i := pc1]) ! j) + count_list sched j"
    proof (cases "j = i")
      case False
      with Cons.prems(3) show ?thesis by simp
    next
      case eq: True
      show ?thesis
      proof (cases "is_Done (pcs ! i)")
        case True
        then obtain b where "pcs ! i = Done b" by (auto simp: is_Done_def split: thread_pc.splits)
        with s have "pc1 = Done b" by (simp add: thread_step_def)
        with eq \<open>i < length pcs\<close> show ?thesis by (simp add: pc_rank_def)
      next
        case False
        from thread_step_progress [where reorder_fn = reorder_fn and filter_md = filter_md
            and weights_desc = weights_desc and filter_values = filter_values,
            OF conv ne Cons.prems(1) \<open>i < length pcs\<close> False]
        have "pc_rank (pcs ! i) < pc_rank pc1" by (simp add: s)
        with Cons.prems(3) eq \<open>i < length pcs\<close> show ?thesis by simp
      qed
    qed
    have "fst (run_threads reorder_fn weights_desc filter_md filter_values sched
                 (pcs[i := pc1], st1)) ! j = Done CachedFilterData"
      by (rule Cons.IH [OF inv1 Cons.prems(2) rank])
    with True s show ?thesis by simp
  next
    case False
    with len Cons.prems(2) have "i \<noteq> j" by simp
    with Cons.prems(3) have "3 \<le> pc_rank (pcs ! j) + count_list sched j" by simp
    from Cons.IH [OF Cons.prems(1,2) this] False show ?thesis by simp
  qed
qed

text \<open>
  Claim C3. \<open>n\<close> threads, at least one, enter the filter section with the same request
  while the cache is empty, and the backend's conversion of the filter yields a buffer
  with at least one element. Whatever the interleaving of their steps, once the schedule
  has named every thread three times, every thread is done and executes with the cached
  buffer, exactly one conversion was logged, and the cache holds its result under the
  requested descriptor.
\<close>

theorem concurrent_first_use_converts_once:
  assumes "reorder_fn filter_md weights_desc filter_values = Inr op_mem"
    and "op_mem \<noteq> []"
    and "IsFilterCacheEmpty st0"
    and "0 < n"
    and "\<forall>i<n. 3 \<le> count_list sched i"
  shows "run_threads reorder_fn weights_desc filter_md filter_values sched
           (replicate n AtIsFilterCacheEmpty, st0 :: ('p, 'e, 'md) kernel_state) =
         (replicate n (Done CachedFilterData),
          \<lparr> log = log st0 @ [EvCacheFilterReorder weights_desc],
            cache = \<lparr> cached_filter_data = op_mem, cached_filter_md = Some weights_desc \<rparr> \<rparr>)"
proof -
  obtain pcs st where run: "run_threads reorder_fn weights_desc filter_md filter_values sched
      (replicate n AtIsFilterCacheEmpty, st0) = (pcs, st)"
    by (cases "run_threads reorder_fn weights_desc filter_md filter_values sched
      (replicate n AtIsFilterCacheEmpty, st0)")
  have inv0: "threads_inv weights_desc op_mem st0 n (replicate n AtIsFilterCacheEmpty) st0"
    using assms(3) by (simp add: threads_inv_def list_all_iff)
  then have inv: "threads_inv weights_desc op_mem st0 n pcs st"
    by (rule run_threads_inv [where reorder_fn = reorder_fn and filter_md = filter_md
          and weights_desc = weights_desc and filter_values = filter_values,
          OF assms(1,2) _ run])
  then have len: "length pcs = n" by (simp add: threads_inv_def)
  have all_done: "pcs ! j = Done CachedFilterData" if "j < n" for j
  proof -
    from assms(5) that
    have "3 \<le> pc_rank (replicate n AtIsFilterCacheEmpty ! j) + count_list sched j"
      by (simp add: pc_rank_def)
    from run_threads_progress [where reorder_fn = reorder_fn and filter_md = filter_md
        and weights_desc = weights_desc and filter_values = filter_values,
        OF assms(1,2) inv0 that this] run
    show ?thesis by simp
  qed
  then have pcs: "pcs = replicate n (Done CachedFilterData)"
    using len by (simp add: list_eq_iff_nth_eq)
  have filled: "\<not> IsFilterCacheEmpty st"
  proof
    assume "IsFilterCacheEmpty st"
    with inv have "list_all (\<lambda>pc. pc = AtIsFilterCacheEmpty \<or> pc = AtCacheFilter) pcs"
      by (simp add: threads_inv_def)
    with len assms(4) have "pcs ! 0 = AtIsFilterCacheEmpty \<or> pcs ! 0 = AtCacheFilter"
      by (simp add: list_all_length)
    with all_done [OF assms(4)] show False by auto
  qed
  with inv have "log st = log st0 @ [EvCacheFilterReorder weights_desc]"
    and "cache st = \<lparr> cached_filter_data = op_mem, cached_filter_md = Some weights_desc \<rparr>"
    by (simp_all add: threads_inv_def)
  then have "st = \<lparr> log = log st0 @ [EvCacheFilterReorder weights_desc],
            cache = \<lparr> cached_filter_data = op_mem, cached_filter_md = Some weights_desc \<rparr> \<rparr>"
    by (cases st) simp
  with run pcs show ?thesis by simp
qed

text \<open>
  Two threads that both see the empty cache before either converts: the second finds the
  cache filled when it rechecks under the exclusive lock.
\<close>

theorem concurrent_first_use_converts_once_witness:
  "run_threads (reorder example_env) 1 0 [1, 2, 3] [0, 1, 0, 1, 1, 0]
     ([AtIsFilterCacheEmpty, AtIsFilterCacheEmpty], initial_state) =
     ([Done CachedFilterData, Done CachedFilterData],
      \<lparr> log = [EvCacheFilterReorder 1],
        cache = \<lparr> cached_filter_data = [3, 2, 1], cached_filter_md = Some 1 \<rparr> \<rparr>)"
proof -
  have r: "reorder example_env 0 1 [1, 2, 3] = Inr [3, 2, (1::int)]"
    by (simp add: example_env_def)
  have e: "IsFilterCacheEmpty initial_state"
    by (simp add: IsFilterCacheEmpty_def initial_state_def empty_filter_cache_def)
  have c: "\<forall>i<2. 3 \<le> count_list [0, 1, 0, 1, 1, 0] (i::nat)"
    by (simp add: numeral_2_eq_2 less_Suc_eq)
  from concurrent_first_use_converts_once [where reorder_fn = "reorder example_env"
      and filter_md = 0 and weights_desc = 1 and filter_values = "[1, 2, 3]"
      and op_mem = "[3, 2, 1]" and n = 2
      and sched = "[0, 1, 0, 1, 1, 0]", OF r _ e _ c]
  show ?thesis by (simp add: numeral_2_eq_2 initial_state_def)
qed

end
